theory Spec2Isabelle
  imports Complex_Main
begin

section \<open>Floating-point values\<close>

text \<open>
  The tracker computes with \<^verbatim>\<open>float\<close> and \<^verbatim>\<open>double\<close>. A value is a finite
  number, an infinity or a NaN. Finite results are exact reals here: rounding, and
  overflow of a finite result to an infinity, are not modelled, and the two zeros are
  one. Division by zero and every comparison against a NaN follow IEEE 754, because the
  tracking loop divides by an elapsed time that can be zero and then compares.
\<close>

datatype fl = Fin real | PInf | NInf | NaN

fun fl_neg :: "fl \<Rightarrow> fl" where
  "fl_neg (Fin a) = Fin (- a)"
| "fl_neg PInf = NInf"
| "fl_neg NInf = PInf"
| "fl_neg NaN = NaN"

fun fl_add :: "fl \<Rightarrow> fl \<Rightarrow> fl" where
  "fl_add (Fin a) (Fin b) = Fin (a + b)"
| "fl_add NaN _ = NaN"
| "fl_add _ NaN = NaN"
| "fl_add PInf NInf = NaN"
| "fl_add NInf PInf = NaN"
| "fl_add PInf _ = PInf"
| "fl_add _ PInf = PInf"
| "fl_add NInf _ = NInf"
| "fl_add _ NInf = NInf"

definition fl_sub :: "fl \<Rightarrow> fl \<Rightarrow> fl" where
  "fl_sub a b = fl_add a (fl_neg b)"

text \<open>The sign of a value; a zero counts as positive (the zeros met here are \<open>+0\<close>).\<close>

fun fl_negative :: "fl \<Rightarrow> bool" where
  "fl_negative (Fin a) = (a < 0)"
| "fl_negative NInf = True"
| "fl_negative _ = False"

definition fl_signed_inf :: "bool \<Rightarrow> fl" where
  "fl_signed_inf neg = (if neg then NInf else PInf)"

fun fl_mul :: "fl \<Rightarrow> fl \<Rightarrow> fl" where
  "fl_mul (Fin a) (Fin b) = Fin (a * b)"
| "fl_mul NaN _ = NaN"
| "fl_mul _ NaN = NaN"
| "fl_mul (Fin a) b = (if a = 0 then NaN else fl_signed_inf (fl_negative (Fin a) \<noteq> fl_negative b))"
| "fl_mul a (Fin b) = (if b = 0 then NaN else fl_signed_inf (fl_negative a \<noteq> fl_negative (Fin b)))"
| "fl_mul a b = fl_signed_inf (fl_negative a \<noteq> fl_negative b)"

fun fl_div :: "fl \<Rightarrow> fl \<Rightarrow> fl" where
  "fl_div (Fin a) (Fin b) =
     (if b \<noteq> 0 then Fin (a / b)
      else if a = 0 then NaN
      else fl_signed_inf (a < 0))"
| "fl_div NaN _ = NaN"
| "fl_div _ NaN = NaN"
| "fl_div (Fin a) _ = Fin 0"
| "fl_div a (Fin b) = fl_signed_inf (fl_negative a \<noteq> fl_negative (Fin b))"
| "fl_div _ _ = NaN"

fun fabs :: "fl \<Rightarrow> fl" where
  "fabs (Fin a) = Fin \<bar>a\<bar>"
| "fabs PInf = PInf"
| "fabs NInf = PInf"
| "fabs NaN = NaN"

fun fl_lt :: "fl \<Rightarrow> fl \<Rightarrow> bool" where
  "fl_lt (Fin a) (Fin b) = (a < b)"
| "fl_lt NaN _ = False"
| "fl_lt _ NaN = False"
| "fl_lt _ NInf = False"
| "fl_lt PInf _ = False"
| "fl_lt _ _ = True"

fun fl_finite :: "fl \<Rightarrow> bool" where
  "fl_finite (Fin a) = True"
| "fl_finite _ = False"

definition fl_gt :: "fl \<Rightarrow> fl \<Rightarrow> bool" where
  "fl_gt a b = fl_lt b a"

definition fl_ge :: "fl \<Rightarrow> fl \<Rightarrow> bool" where
  "fl_ge a b = (a \<noteq> NaN \<and> b \<noteq> NaN \<and> \<not> fl_lt a b)"

text \<open>\<^verbatim>\<open>DBL_MAX\<close> and \<^verbatim>\<open>M_PI\<close>, the constants of \<^verbatim>\<open><cfloat>\<close> and \<^verbatim>\<open><cmath>\<close>.\<close>

definition DBL_MAX :: real where
  "DBL_MAX = (2 - 1 / 2 ^ 52) * 2 ^ 1023"

definition M_PI :: real where
  "M_PI = 3.14159265358979323846"

section \<open>Data model\<close>

text \<open>
  \<^verbatim>\<open>pcl::PointXYZ\<close> and a point cloud. A clock reading
  (\<^verbatim>\<open>high_resolution_clock::time_point\<close>) is the number of seconds since the clock's
  epoch; a default-constructed time point is the epoch itself.
\<close>

record PointXYZ =
  pt_x :: fl
  pt_y :: fl
  pt_z :: fl

type_synonym cloud = "PointXYZ list"

type_synonym time_point = real

definition epoch :: time_point where
  "epoch = 0"

text \<open>The fields of \<^verbatim>\<open>DynamicsConfiguration\<close> that the tracker reads.\<close>

record DynamicsConfiguration =
  maxXVelocity :: fl
  maxYVelocity :: fl
  maxZVelocity :: fl
  maxRollRate :: fl
  maxPitchRate :: fl
  maxYawRate :: fl
  maxRoll :: fl
  maxPitch :: fl

text \<open>
  A tracked object. The rigid transform (\<^verbatim>\<open>Eigen::Affine3f\<close>) is a type parameter:
  the tracker builds, decomposes and applies transforms only through library calls.
\<close>

record 'T Object =
  m_markerConfigurationIdx :: nat
  m_dynamicsConfigurationIdx :: nat
  m_lastTransformation :: 'T
  m_lastValidTransform :: time_point
  m_lastTransformationValid :: bool

definition Object_ctor :: "nat \<Rightarrow> nat \<Rightarrow> 'T \<Rightarrow> 'T Object" where
  "Object_ctor markerConfigurationIdx dynamicsConfigurationIdx initialTransformation =
     \<lparr> m_markerConfigurationIdx = markerConfigurationIdx,
       m_dynamicsConfigurationIdx = dynamicsConfigurationIdx,
       m_lastTransformation = initialTransformation,
       m_lastValidTransform = epoch,
       m_lastTransformationValid = False \<rparr>"

definition transformation :: "'T Object \<Rightarrow> 'T" where
  "transformation object = m_lastTransformation object"

definition lastTransformationValid :: "'T Object \<Rightarrow> bool" where
  "lastTransformationValid object = m_lastTransformationValid object"

record 'T ObjectTracker =
  m_dynamicsConfigurations :: "DynamicsConfiguration list"
  m_markerConfigurations :: "cloud list"
  m_objects :: "'T Object list"
  m_initialized :: bool

definition ObjectTracker_ctor ::
  "DynamicsConfiguration list \<Rightarrow> cloud list \<Rightarrow> 'T Object list \<Rightarrow> 'T ObjectTracker" where
  "ObjectTracker_ctor dynamicsConfigurations markerConfigurations objs =
     \<lparr> m_dynamicsConfigurations = dynamicsConfigurations,
       m_markerConfigurations = markerConfigurations,
       m_objects = objs,
       m_initialized = False \<rparr>"

definition objects :: "'T ObjectTracker \<Rightarrow> 'T Object list" where
  "objects tracker = m_objects tracker"

section \<open>The library behind the tracker\<close>

text \<open>
  Translation and Euler angles, in the order in which PCL's \<^verbatim>\<open>getTransformation\<close>
  takes them and \<^verbatim>\<open>getTranslationAndEulerAngles\<close> returns them:
  \<open>x, y, z, roll, pitch, yaw\<close>.
\<close>

record euler =
  e_x :: fl
  e_y :: fl
  e_z :: fl
  e_roll :: fl
  e_pitch :: fl
  e_yaw :: fl

text \<open>
  The settings of an \<^verbatim>\<open>IterativeClosestPoint\<close> object; \<open>None\<close> is the library's
  default, in force until a setter is called.
\<close>

record ICP =
  maximumIterations :: "nat option"
  inputTarget :: "cloud option"
  inputSource :: "cloud option"
  maxCorrespondenceDistance :: "fl option"

definition ICP_new :: ICP where
  "ICP_new = \<lparr> maximumIterations = None, inputTarget = None, inputSource = None,
               maxCorrespondenceDistance = None \<rparr>"

text \<open>What an \<^verbatim>\<open>align\<close> call leaves to be read from the ICP object.\<close>

record 'T alignment =
  hasConverged :: bool
  getFitnessScore :: fl
  getFinalTransformation :: 'T

text \<open>
  The library calls, as parameters of the model: registration (\<^verbatim>\<open>align\<close> with the
  settings of the ICP object and an initial guess), the \<open>k\<close> nearest neighbours of a
  point in a cloud (the two result vectors as the call leaves them), and the
  construction, decomposition and application of a transform.
\<close>

record 'T pcl =
  align :: "ICP \<Rightarrow> 'T \<Rightarrow> 'T alignment"
  nearestKSearch :: "cloud \<Rightarrow> PointXYZ \<Rightarrow> nat \<Rightarrow> int list \<times> fl list"
  getTransformation :: "euler \<Rightarrow> 'T"
  getTranslationAndEulerAngles :: "'T \<Rightarrow> euler"
  translation :: "'T \<Rightarrow> PointXYZ"
  transformPoint :: "'T \<Rightarrow> PointXYZ \<Rightarrow> PointXYZ"

text \<open>
  Reading a \<^verbatim>\<open>std::vector\<close> with \<^verbatim>\<open>operator[]\<close>: outside the vector the
  behaviour of the program is undefined, which the model reports as an error.
\<close>

datatype error = OutOfRange

definition vec_at :: "'a list \<Rightarrow> nat \<Rightarrow> error + 'a" where
  "vec_at xs i = (if i < length xs then Inr (xs ! i) else Inl OutOfRange)"

definition vec_at_int :: "'a list \<Rightarrow> int \<Rightarrow> error + 'a" where
  "vec_at_int xs i = (if 0 \<le> i \<and> i < int (length xs) then Inr (xs ! nat i) else Inl OutOfRange)"

section \<open>The tracking loop\<close>

text \<open>What the tracker prints; the numbers of a failed dynamics check are kept as values.\<close>

datatype diagnostic =
  InitializationFailed
| NotConverged
| DynamicCheckFailed "(string \<times> fl \<times> fl) list"

text \<open>
  \<^verbatim>\<open>elapsedSeconds = stamp - object.m_lastValidTransform\<close>, read as a
  \<^verbatim>\<open>double\<close> number of seconds.
\<close>

definition elapsedSeconds :: "time_point \<Rightarrow> 'T Object \<Rightarrow> fl" where
  "elapsedSeconds stamp object = Fin (stamp - m_lastValidTransform object)"

text \<open>The six finite differences \<open>vx, vy, vz, wroll, wpitch, wyaw\<close>.\<close>

record rates =
  vx :: fl
  vy :: fl
  vz :: fl
  wroll :: fl
  wpitch :: fl
  wyaw :: fl

definition finite_differences :: "euler \<Rightarrow> euler \<Rightarrow> fl \<Rightarrow> rates" where
  "finite_differences new prev dt =
     \<lparr> vx = fl_div (fl_sub (e_x new) (e_x prev)) dt,
       vy = fl_div (fl_sub (e_y new) (e_y prev)) dt,
       vz = fl_div (fl_sub (e_z new) (e_z prev)) dt,
       wroll = fl_div (fl_sub (e_roll new) (e_roll prev)) dt,
       wpitch = fl_div (fl_sub (e_pitch new) (e_pitch prev)) dt,
       wyaw = fl_div (fl_sub (e_yaw new) (e_yaw prev)) dt \<rparr>"

text \<open>The condition of the \<^verbatim>\<open>if\<close> that accepts a pose.\<close>

definition dynamics_check :: "DynamicsConfiguration \<Rightarrow> rates \<Rightarrow> euler \<Rightarrow> bool" where
  "dynamics_check dynConf v new \<longleftrightarrow>
       fl_lt (fabs (vx v)) (maxXVelocity dynConf)
     \<and> fl_lt (fabs (vy v)) (maxYVelocity dynConf)
     \<and> fl_lt (fabs (vz v)) (maxZVelocity dynConf)
     \<and> fl_lt (fabs (wroll v)) (maxRollRate dynConf)
     \<and> fl_lt (fabs (wpitch v)) (maxPitchRate dynConf)
     \<and> fl_lt (fabs (wyaw v)) (maxYawRate dynConf)
     \<and> fl_lt (fabs (e_roll new)) (maxRoll dynConf)
     \<and> fl_lt (fabs (e_pitch new)) (maxPitch dynConf)"

text \<open>The lines of the message printed when the check fails.\<close>

definition violations :: "DynamicsConfiguration \<Rightarrow> rates \<Rightarrow> euler \<Rightarrow> (string \<times> fl \<times> fl) list" where
  "violations dynConf v new =
     (if fl_ge (fabs (vx v)) (maxXVelocity dynConf)
        then [(''vx'', vx v, maxXVelocity dynConf)] else [])
   @ (if fl_ge (fabs (vy v)) (maxYVelocity dynConf)
        then [(''vy'', vy v, maxYVelocity dynConf)] else [])
   @ (if fl_ge (fabs (vz v)) (maxZVelocity dynConf)
        then [(''vz'', vz v, maxZVelocity dynConf)] else [])
   @ (if fl_ge (fabs (wroll v)) (maxRollRate dynConf)
        then [(''wroll'', wroll v, maxRollRate dynConf)] else [])
   @ (if fl_ge (fabs (wpitch v)) (maxPitchRate dynConf)
        then [(''wpitch'', wpitch v, maxPitchRate dynConf)] else [])
   @ (if fl_ge (fabs (wyaw v)) (maxYawRate dynConf)
        then [(''wyaw'', wyaw v, maxYawRate dynConf)] else [])
   @ (if fl_ge (fabs (e_roll new)) (maxRoll dynConf)
        then [(''roll'', e_roll new, maxRoll dynConf)] else [])
   @ (if fl_ge (fabs (e_pitch new)) (maxPitch dynConf)
        then [(''pitch'', e_pitch new, maxPitch dynConf)] else [])"

text \<open>
  The part of the loop body after a converged alignment: decompose the new and the
  last pose, difference them, and commit the new pose if the check passes.
\<close>

definition gate :: "'T pcl \<Rightarrow> DynamicsConfiguration \<Rightarrow> time_point \<Rightarrow> fl \<Rightarrow> 'T \<Rightarrow> 'T Object
    \<Rightarrow> 'T Object \<times> diagnostic list" where
  "gate P dynConf stamp dt tROTA object =
     (let new = getTranslationAndEulerAngles P tROTA;
          prev = getTranslationAndEulerAngles P (m_lastTransformation object);
          v = finite_differences new prev dt
      in if dynamics_check dynConf v new
         then (object\<lparr> m_lastTransformation := tROTA,
                       m_lastValidTransform := stamp,
                       m_lastTransformationValid := True \<rparr>, [])
         else (object, [DynamicCheckFailed (violations dynConf v new)]))"

text \<open>
  One pass of the loop over \<^verbatim>\<open>m_objects\<close>. The ICP object is shared by the passes,
  so it goes in and comes out.
\<close>

definition track_object :: "'T pcl \<Rightarrow> DynamicsConfiguration list \<Rightarrow> cloud list \<Rightarrow> time_point
    \<Rightarrow> ICP \<Rightarrow> 'T Object \<Rightarrow> error + (ICP \<times> 'T Object \<times> diagnostic list)" where
  "track_object P dynamicsConfigurations markerConfigurations stamp icp object0 =
     (let object = object0\<lparr> m_lastTransformationValid := False \<rparr>;
          dt = elapsedSeconds stamp object
      in case vec_at dynamicsConfigurations (m_dynamicsConfigurationIdx object) of
           Inl e \<Rightarrow> Inl e
         | Inr dynConf \<Rightarrow>
             let maxV = maxXVelocity dynConf;
                 icp1 = icp\<lparr> maxCorrespondenceDistance := Some (fl_mul maxV dt) \<rparr>
             in (case vec_at markerConfigurations (m_markerConfigurationIdx object) of
                   Inl e \<Rightarrow> Inl e
                 | Inr source \<Rightarrow>
                     let icp2 = icp1\<lparr> inputSource := Some source \<rparr>;
                         a = align P icp2 (m_lastTransformation object)
                     in if \<not> hasConverged a
                        then Inr (icp2, object, [NotConverged])
                        else Inr (icp2, gate P dynConf stamp dt (getFinalTransformation a) object)))"

fun track_objects :: "'T pcl \<Rightarrow> DynamicsConfiguration list \<Rightarrow> cloud list \<Rightarrow> time_point
    \<Rightarrow> ICP \<Rightarrow> 'T Object list \<Rightarrow> error + ('T Object list \<times> diagnostic list)" where
  "track_objects P dynamicsConfigurations markerConfigurations stamp icp [] = Inr ([], [])"
| "track_objects P dynamicsConfigurations markerConfigurations stamp icp (object # rest) =
     (case track_object P dynamicsConfigurations markerConfigurations stamp icp object of
        Inl e \<Rightarrow> Inl e
      | Inr (icp', object', out) \<Rightarrow>
          (case track_objects P dynamicsConfigurations markerConfigurations stamp icp' rest of
             Inl e \<Rightarrow> Inl e
           | Inr (rest', out') \<Rightarrow> Inr (object' # rest', out @ out')))"

section \<open>Initialization\<close>

definition N_YAW :: nat where
  "N_YAW = 20"

definition INIT_MAX_HAUSDORFF_DIST2 :: fl where
  "INIT_MAX_HAUSDORFF_DIST2 = Fin (0.008 * 0.008)"

text \<open>
  The sum of the observed markers that the neighbour search named: the loop
  \<^verbatim>\<open>center += (*markers)[nearestIdx[i]]\<close> over \<open>i = 0, ..., objNpts - 1\<close>.
\<close>

fun sum_nearest :: "cloud \<Rightarrow> int list \<Rightarrow> nat list \<Rightarrow> PointXYZ \<Rightarrow> error + PointXYZ" where
  "sum_nearest markers nearestIdx [] center = Inr center"
| "sum_nearest markers nearestIdx (i # rest) center =
     (case vec_at nearestIdx i of
        Inl e \<Rightarrow> Inl e
      | Inr k \<Rightarrow>
          (case vec_at_int markers k of
             Inl e \<Rightarrow> Inl e
           | Inr m \<Rightarrow>
               sum_nearest markers nearestIdx rest
                 \<lparr> pt_x = fl_add (pt_x center) (pt_x m),
                   pt_y = fl_add (pt_y center) (pt_y m),
                   pt_z = fl_add (pt_z center) (pt_z m) \<rparr>))"

text \<open>The divisor of the centroid: \<^verbatim>\<open>objNpts\<close> converted to \<^verbatim>\<open>float\<close>.\<close>

definition centroid_divisor :: "nat \<Rightarrow> fl" where
  "centroid_divisor objNpts = Fin (real objNpts)"

text \<open>
  The centroid of the \<open>objNpts\<close> observed markers nearest to the translation of the
  object's transform.
\<close>

definition knn_centroid :: "'T pcl \<Rightarrow> cloud \<Rightarrow> nat \<Rightarrow> 'T \<Rightarrow> error + PointXYZ" where
  "knn_centroid P markers objNpts lastTransformation =
     (let ctr = translation P lastTransformation;
          nearestIdx = fst (nearestKSearch P markers ctr objNpts)
      in case sum_nearest markers nearestIdx [0..<objNpts]
                \<lparr> pt_x = Fin 0, pt_y = Fin 0, pt_z = Fin 0 \<rparr> of
           Inl e \<Rightarrow> Inl e
         | Inr center \<Rightarrow>
             Inr \<lparr> pt_x = fl_div (pt_x center) (centroid_divisor objNpts),
                   pt_y = fl_div (pt_y center) (centroid_divisor objNpts),
                   pt_z = fl_div (pt_z center) (centroid_divisor objNpts) \<rparr>)"

text \<open>
  The guess of pass \<open>i\<close> of the search:
  \<^verbatim>\<open>pcl::getTransformation(center.x, center.y, center.z, yaw, 0, 0)\<close> with
  \<^verbatim>\<open>yaw = i * (2 * M_PI / N_YAW)\<close>. The fourth argument of the call is the
  library's \<open>roll\<close>, the sixth its \<open>yaw\<close>.
\<close>

definition tryMatrix :: "'T pcl \<Rightarrow> PointXYZ \<Rightarrow> nat \<Rightarrow> 'T" where
  "tryMatrix P center i =
     (let yaw = Fin (real i * (2 * M_PI / real N_YAW))
      in getTransformation P
           \<lparr> e_x = pt_x center, e_y = pt_y center, e_z = pt_z center,
             e_roll = yaw, e_pitch = Fin 0, e_yaw = Fin 0 \<rparr>)"

text \<open>
  The search loop, with its two variables: the best score so far and the object's
  transform, which every improving pass overwrites.
\<close>

fun yaw_search :: "'T pcl \<Rightarrow> ICP \<Rightarrow> PointXYZ \<Rightarrow> nat list \<Rightarrow> fl \<Rightarrow> 'T \<Rightarrow> fl \<times> 'T" where
  "yaw_search P icp center [] bestErr lastTransformation = (bestErr, lastTransformation)"
| "yaw_search P icp center (i # rest) bestErr lastTransformation =
     (let a = align P icp (tryMatrix P center i);
          err = getFitnessScore a
      in if fl_lt err bestErr
         then yaw_search P icp center rest err (getFinalTransformation a)
         else yaw_search P icp center rest bestErr lastTransformation)"

text \<open>
  The check of the best fit: for each point of \<^verbatim>\<open>bestCloud\<close>, one nearest
  neighbour, and \<^verbatim>\<open>allFitsGood\<close> cleared if its squared distance is above the bound.
\<close>

fun check_fit :: "'T pcl \<Rightarrow> cloud \<Rightarrow> cloud \<Rightarrow> bool \<Rightarrow> error + bool" where
  "check_fit P markers [] allFitsGood = Inr allFitsGood"
| "check_fit P markers (q # rest) allFitsGood =
     (case vec_at (snd (nearestKSearch P markers q 1)) 0 of
        Inl e \<Rightarrow> Inl e
      | Inr d \<Rightarrow>
          check_fit P markers rest
            (if fl_gt d INIT_MAX_HAUSDORFF_DIST2 then False else allFitsGood))"

text \<open>One pass of the loop of \<^verbatim>\<open>initialize\<close> over \<^verbatim>\<open>m_objects\<close>.\<close>

definition initialize_object :: "'T pcl \<Rightarrow> cloud list \<Rightarrow> cloud \<Rightarrow> ICP \<Rightarrow> bool \<Rightarrow> 'T Object
    \<Rightarrow> error + (ICP \<times> bool \<times> 'T Object)" where
  "initialize_object P markerConfigurations markers icp allFitsGood object =
     (case vec_at markerConfigurations (m_markerConfigurationIdx object) of
        Inl e \<Rightarrow> Inl e
      | Inr objMarkers \<Rightarrow>
          let icp1 = icp\<lparr> inputSource := Some objMarkers \<rparr>;
              objNpts = length objMarkers
          in (case knn_centroid P markers objNpts (m_lastTransformation object) of
                Inl e \<Rightarrow> Inl e
              | Inr center \<Rightarrow>
                  let best = snd (yaw_search P icp1 center [0..<N_YAW] (Fin DBL_MAX)
                                    (m_lastTransformation object));
                      object' = object\<lparr> m_lastTransformation := best \<rparr>;
                      bestCloud = map (transformPoint P best) objMarkers
                  in (case check_fit P markers bestCloud allFitsGood of
                        Inl e \<Rightarrow> Inl e
                      | Inr allFitsGood' \<Rightarrow> Inr (icp1, allFitsGood', object'))))"

fun initialize_objects :: "'T pcl \<Rightarrow> cloud list \<Rightarrow> cloud \<Rightarrow> ICP \<Rightarrow> bool \<Rightarrow> 'T Object list
    \<Rightarrow> error + (bool \<times> 'T Object list)" where
  "initialize_objects P markerConfigurations markers icp allFitsGood [] = Inr (allFitsGood, [])"
| "initialize_objects P markerConfigurations markers icp allFitsGood (object # rest) =
     (case initialize_object P markerConfigurations markers icp allFitsGood object of
        Inl e \<Rightarrow> Inl e
      | Inr (icp', allFitsGood', object') \<Rightarrow>
          (case initialize_objects P markerConfigurations markers icp' allFitsGood' rest of
             Inl e \<Rightarrow> Inl e
           | Inr (result, rest') \<Rightarrow> Inr (result, object' # rest')))"

text \<open>The ICP object of \<^verbatim>\<open>initialize\<close> and of \<^verbatim>\<open>runICP\<close> before their loops.\<close>

definition icp_setup :: "cloud \<Rightarrow> ICP" where
  "icp_setup markers = ICP_new\<lparr> maximumIterations := Some 5, inputTarget := Some markers \<rparr>"

definition initialize :: "'T pcl \<Rightarrow> 'T ObjectTracker \<Rightarrow> cloud \<Rightarrow> error + (bool \<times> 'T ObjectTracker)" where
  "initialize P tracker markers =
     (case initialize_objects P (m_markerConfigurations tracker) markers (icp_setup markers)
             True (m_objects tracker) of
        Inl e \<Rightarrow> Inl e
      | Inr (allFitsGood, objs) \<Rightarrow> Inr (allFitsGood, tracker\<lparr> m_objects := objs \<rparr>))"

section \<open>One frame\<close>

text \<open>
  \<^verbatim>\<open>m_initialized = m_initialized || initialize(markers)\<close>: \<^verbatim>\<open>initialize\<close> runs
  only while the flag is false, and the message is printed if it stays false.
\<close>

definition ensure_initialized :: "'T pcl \<Rightarrow> 'T ObjectTracker \<Rightarrow> cloud
    \<Rightarrow> error + ('T ObjectTracker \<times> diagnostic list)" where
  "ensure_initialized P tracker markers =
     (if m_initialized tracker then Inr (tracker, [])
      else case initialize P tracker markers of
             Inl e \<Rightarrow> Inl e
           | Inr (ok, tracker') \<Rightarrow>
               Inr (tracker'\<lparr> m_initialized := ok \<rparr>,
                    if \<not> ok then [InitializationFailed] else []))"

text \<open>
  \<^verbatim>\<open>runICP\<close>; \<open>stamp\<close> is what \<^verbatim>\<open>high_resolution_clock::now()\<close> returned at
  the start of the call.
\<close>

definition runICP :: "'T pcl \<Rightarrow> time_point \<Rightarrow> 'T ObjectTracker \<Rightarrow> cloud
    \<Rightarrow> error + ('T ObjectTracker \<times> diagnostic list)" where
  "runICP P stamp tracker markers =
     (case ensure_initialized P tracker markers of
        Inl e \<Rightarrow> Inl e
      | Inr (tracker1, out) \<Rightarrow>
          (case track_objects P (m_dynamicsConfigurations tracker1)
                  (m_markerConfigurations tracker1) stamp (icp_setup markers)
                  (m_objects tracker1) of
             Inl e \<Rightarrow> Inl e
           | Inr (objs, out') \<Rightarrow> Inr (tracker1\<lparr> m_objects := objs \<rparr>, out @ out')))"

definition update :: "'T pcl \<Rightarrow> time_point \<Rightarrow> 'T ObjectTracker \<Rightarrow> cloud
    \<Rightarrow> error + ('T ObjectTracker \<times> diagnostic list)" where
  "update P stamp tracker pointCloud = runICP P stamp tracker pointCloud"

section \<open>Notions used to state the properties\<close>

text \<open>
  The eight compared pairs of the dynamics check, value and bound, in the order of
  the source: the six rates, then roll and pitch of the new pose.
\<close>

definition checked_pairs :: "DynamicsConfiguration \<Rightarrow> rates \<Rightarrow> euler \<Rightarrow> (fl \<times> fl) list" where
  "checked_pairs dynConf v new =
     [(vx v, maxXVelocity dynConf), (vy v, maxYVelocity dynConf), (vz v, maxZVelocity dynConf),
      (wroll v, maxRollRate dynConf), (wpitch v, maxPitchRate dynConf),
      (wyaw v, maxYawRate dynConf),
      (e_roll new, maxRoll dynConf), (e_pitch new, maxPitch dynConf)]"

definition below :: "fl \<times> fl \<Rightarrow> bool" where
  "below c \<longleftrightarrow> fl_lt (fabs (fst c)) (snd c)"

text \<open>
  The ICP object as \<^verbatim>\<open>align\<close> sees it in a pass of the tracking loop, after the two
  setters of the pass.
\<close>

definition tracking_icp :: "ICP \<Rightarrow> DynamicsConfiguration \<Rightarrow> fl \<Rightarrow> cloud \<Rightarrow> ICP" where
  "tracking_icp icp dynConf dt source =
     icp\<lparr> maxCorrespondenceDistance := Some (fl_mul (maxXVelocity dynConf) dt),
          inputSource := Some source \<rparr>"

text \<open>
  The ICP object as \<^verbatim>\<open>align\<close> sees it in a pass of the loop of \<^verbatim>\<open>initialize\<close>.
\<close>

definition init_icp :: "cloud \<Rightarrow> cloud \<Rightarrow> ICP" where
  "init_icp markers objMarkers = (icp_setup markers)\<lparr> inputSource := Some objMarkers \<rparr>"

text \<open>
  The nearest observed marker of a point is within the bound: the search returned a
  neighbour and its squared distance is not above \<^verbatim>\<open>INIT_MAX_HAUSDORFF_DIST2\<close>.
\<close>

definition nearest_ok :: "'T pcl \<Rightarrow> cloud \<Rightarrow> PointXYZ \<Rightarrow> bool" where
  "nearest_ok P markers q \<longleftrightarrow>
     (case snd (nearestKSearch P markers q 1) of
        [] \<Rightarrow> False
      | d # _ \<Rightarrow> \<not> fl_gt d INIT_MAX_HAUSDORFF_DIST2)"

text \<open>
  An object passes the validation: every point of its marker configuration, moved by
  the object's transform, has its nearest observed marker within the bound.
\<close>

definition object_fits :: "'T pcl \<Rightarrow> cloud list \<Rightarrow> cloud \<Rightarrow> 'T Object \<Rightarrow> bool" where
  "object_fits P markerConfigurations markers object \<longleftrightarrow>
     (case vec_at markerConfigurations (m_markerConfigurationIdx object) of
        Inl e \<Rightarrow> False
      | Inr objMarkers \<Rightarrow>
          list_all (\<lambda>q. nearest_ok P markers (transformPoint P (m_lastTransformation object) q))
            objMarkers)"

text \<open>
  The specification's \<open>maxLinearVelocity\<close> of a dynamics configuration, which has one
  velocity bound per axis: the largest of the three.
\<close>

definition fl_max :: "fl \<Rightarrow> fl \<Rightarrow> fl" where
  "fl_max a b = (if fl_lt a b then b else a)"

definition maxLinearVelocity_spec :: "DynamicsConfiguration \<Rightarrow> fl" where
  "maxLinearVelocity_spec dynConf =
     fl_max (maxXVelocity dynConf) (fl_max (maxYVelocity dynConf) (maxZVelocity dynConf))"

section \<open>A library instance for concrete frames\<close>

text \<open>
  To run the tracker on a concrete frame the library calls need values. In this
  instance a transform is kept as its translation and Euler angles; a point is moved by
  the translation alone, which is what a transform with zero angles does; the neighbour
  search returns the first \<open>k\<close> points of the cloud with their squared distances, which
  is the nearest-neighbour search of a cloud of one point. The registration is left open.
\<close>

definition sqr_dist :: "PointXYZ \<Rightarrow> PointXYZ \<Rightarrow> fl" where
  "sqr_dist p q =
     (let dx = fl_sub (pt_x p) (pt_x q); dy = fl_sub (pt_y p) (pt_y q);
          dz = fl_sub (pt_z p) (pt_z q)
      in fl_add (fl_add (fl_mul dx dx) (fl_mul dy dy)) (fl_mul dz dz))"

definition first_k_search :: "cloud \<Rightarrow> PointXYZ \<Rightarrow> nat \<Rightarrow> int list \<times> fl list" where
  "first_k_search markers q k =
     (map int [0..<min k (length markers)], map (sqr_dist q) (take k markers))"

definition euler_pcl :: "(ICP \<Rightarrow> euler \<Rightarrow> euler alignment) \<Rightarrow> euler pcl" where
  "euler_pcl registration =
     \<lparr> align = registration,
       nearestKSearch = first_k_search,
       getTransformation = (\<lambda>e. e),
       getTranslationAndEulerAngles = (\<lambda>t. t),
       translation = (\<lambda>t. \<lparr> pt_x = e_x t, pt_y = e_y t, pt_z = e_z t \<rparr>),
       transformPoint = (\<lambda>t p. \<lparr> pt_x = fl_add (pt_x p) (e_x t),
                                  pt_y = fl_add (pt_y p) (e_y t),
                                  pt_z = fl_add (pt_z p) (e_z t) \<rparr>) \<rparr>"

definition pose :: "real \<Rightarrow> real \<Rightarrow> real \<Rightarrow> real \<Rightarrow> real \<Rightarrow> real \<Rightarrow> euler" where
  "pose px py pz r p yw =
     \<lparr> e_x = Fin px, e_y = Fin py, e_z = Fin pz, e_roll = Fin r, e_pitch = Fin p, e_yaw = Fin yw \<rparr>"

definition point :: "real \<Rightarrow> real \<Rightarrow> real \<Rightarrow> PointXYZ" where
  "point px py pz = \<lparr> pt_x = Fin px, pt_y = Fin py, pt_z = Fin pz \<rparr>"

text \<open>A registration that converges to a given pose with a given score.\<close>

definition converge_to :: "euler \<Rightarrow> fl \<Rightarrow> ICP \<Rightarrow> euler \<Rightarrow> euler alignment" where
  "converge_to t score icp guess =
     \<lparr> hasConverged = True, getFitnessScore = score, getFinalTransformation = t \<rparr>"

text \<open>A registration that returns its guess with a given score.\<close>

definition keep_guess :: "fl \<Rightarrow> ICP \<Rightarrow> euler \<Rightarrow> euler alignment" where
  "keep_guess score icp guess =
     \<lparr> hasConverged = True, getFitnessScore = score, getFinalTransformation = guess \<rparr>"

text \<open>
  A registration that finds no correspondence: it reports no convergence, the score is
  the library's score for an empty set of correspondences, and the transform is the guess.
\<close>

definition no_correspondence :: "ICP \<Rightarrow> euler \<Rightarrow> euler alignment" where
  "no_correspondence icp guess =
     \<lparr> hasConverged = False, getFitnessScore = Fin DBL_MAX, getFinalTransformation = guess \<rparr>"

text \<open>
  A registration that returns its guess with score 0, and converges unless a maximum
  correspondence distance that is not above 0 bars every correspondence.
\<close>

definition within_reach :: "ICP \<Rightarrow> euler \<Rightarrow> euler alignment" where
  "within_reach icp guess =
     \<lparr> hasConverged = (case maxCorrespondenceDistance icp of
                         None \<Rightarrow> True
                       | Some d \<Rightarrow> fl_lt (Fin 0) d),
       getFitnessScore = Fin 0,
       getFinalTransformation = guess \<rparr>"

text \<open>Dynamics bounds, all equal to one finite number.\<close>

definition uniform_bounds :: "real \<Rightarrow> DynamicsConfiguration" where
  "uniform_bounds b =
     \<lparr> maxXVelocity = Fin b, maxYVelocity = Fin b, maxZVelocity = Fin b,
       maxRollRate = Fin b, maxPitchRate = Fin b, maxYawRate = Fin b,
       maxRoll = Fin b, maxPitch = Fin b \<rparr>"

section \<open>Facts about the floating-point operations\<close>

lemma fl_lt_irrefl: "\<not> fl_lt a a"
  by (cases a) simp_all

lemma fl_lt_trans: "fl_lt a b \<Longrightarrow> fl_lt b c \<Longrightarrow> fl_lt a c"
  by (cases a; cases b; cases c) simp_all

lemma fl_lt_asym: "fl_lt a b \<Longrightarrow> \<not> fl_lt b a"
  by (cases a; cases b) simp_all

lemma fl_div_zero_cases: "fl_div a (Fin 0) = NaN \<or> fl_div a (Fin 0) = PInf \<or> fl_div a (Fin 0) = NInf"
  by (cases a) (simp_all add: fl_signed_inf_def)

lemma fabs_div_zero_not_lt: "\<not> fl_lt (fabs (fl_div a (Fin 0))) b"
  using fl_div_zero_cases [of a] by (cases b) auto

lemma below_bound_minus: "0 < e \<Longrightarrow> e < 2 * b \<Longrightarrow> below (Fin (b - e), Fin b)"
  by (simp add: below_def abs_less_iff)

lemma not_below_bound_plus: "0 < e \<Longrightarrow> \<not> below (Fin (b + e), Fin b)"
  by (simp add: below_def abs_less_iff)

lemma DBL_MAX_gt_1: "1 < DBL_MAX"
  by (simp add: DBL_MAX_def)

section \<open>A pass of the tracking loop\<close>

lemma elapsedSeconds_flag [simp]:
  "elapsedSeconds stamp (object\<lparr> m_lastTransformationValid := f \<rparr>) = elapsedSeconds stamp object"
  by (simp add: elapsedSeconds_def)

lemma length_checked_pairs [simp]: "length (checked_pairs dynConf v new) = 8"
  by (simp add: checked_pairs_def)

lemma dynamics_check_pairs:
  "dynamics_check dynConf v new \<longleftrightarrow> list_all below (checked_pairs dynConf v new)"
  by (simp add: dynamics_check_def checked_pairs_def below_def conj_assoc)

lemma dynamics_check_nth:
  "dynamics_check dynConf v new \<longleftrightarrow> (\<forall>j<8. below (checked_pairs dynConf v new ! j))"
  by (simp add: dynamics_check_pairs list_all_length)

lemma dynamics_check_zero_dt:
  "\<not> dynamics_check dynConf (finite_differences new prev (Fin 0)) new"
  by (simp add: dynamics_check_def finite_differences_def fabs_div_zero_not_lt)

lemma dynamics_check_yaw_free:
  "dynamics_check dynConf v (new\<lparr> e_yaw := y \<rparr>) \<longleftrightarrow> dynamics_check dynConf v new"
  by (simp add: dynamics_check_def)

lemma finite_differences_yaw_shift:
  "finite_differences (new\<lparr> e_yaw := Fin (y + d) \<rparr>) (prev\<lparr> e_yaw := Fin (y0 + d) \<rparr>) dt
     = finite_differences (new\<lparr> e_yaw := Fin y \<rparr>) (prev\<lparr> e_yaw := Fin y0 \<rparr>) dt"
  by (simp add: finite_differences_def fl_sub_def)

lemma tracking_icp_cong:
  "maximumIterations i1 = maximumIterations i2 \<Longrightarrow> inputTarget i1 = inputTarget i2
    \<Longrightarrow> tracking_icp i1 dynConf dt source = tracking_icp i2 dynConf dt source"
  by (simp add: tracking_icp_def)

lemma track_object_unfold:
  "track_object P dyns mconfs stamp icp object =
     (case vec_at dyns (m_dynamicsConfigurationIdx object) of
        Inl e \<Rightarrow> Inl e
      | Inr dynConf \<Rightarrow>
          (case vec_at mconfs (m_markerConfigurationIdx object) of
             Inl e \<Rightarrow> Inl e
           | Inr source \<Rightarrow>
               (let icp2 = tracking_icp icp dynConf (elapsedSeconds stamp object) source;
                    a = align P icp2 (m_lastTransformation object)
                in if \<not> hasConverged a
                   then Inr (icp2, object\<lparr> m_lastTransformationValid := False \<rparr>, [NotConverged])
                   else Inr (icp2, gate P dynConf stamp (elapsedSeconds stamp object)
                                     (getFinalTransformation a)
                                     (object\<lparr> m_lastTransformationValid := False \<rparr>)))))"
  by (simp add: track_object_def tracking_icp_def Let_def split: sum.splits)

text \<open>The outcome of a pass in which the alignment converged.\<close>

lemma track_object_converged:
  assumes "vec_at dyns (m_dynamicsConfigurationIdx object) = Inr dynConf"
    and "vec_at mconfs (m_markerConfigurationIdx object) = Inr source"
    and "hasConverged (align P (tracking_icp icp dynConf (elapsedSeconds stamp object) source)
           (m_lastTransformation object))"
  shows "track_object P dyns mconfs stamp icp object =
           Inr (tracking_icp icp dynConf (elapsedSeconds stamp object) source,
                gate P dynConf stamp (elapsedSeconds stamp object)
                  (getFinalTransformation
                     (align P (tracking_icp icp dynConf (elapsedSeconds stamp object) source)
                        (m_lastTransformation object)))
                  (object\<lparr> m_lastTransformationValid := False \<rparr>))"
  using assms by (simp add: track_object_def tracking_icp_def Let_def)

lemma track_object_not_converged:
  assumes "vec_at dyns (m_dynamicsConfigurationIdx object) = Inr dynConf"
    and "vec_at mconfs (m_markerConfigurationIdx object) = Inr source"
    and "\<not> hasConverged (align P (tracking_icp icp dynConf (elapsedSeconds stamp object) source)
           (m_lastTransformation object))"
  shows "track_object P dyns mconfs stamp icp object =
           Inr (tracking_icp icp dynConf (elapsedSeconds stamp object) source,
                object\<lparr> m_lastTransformationValid := False \<rparr>, [NotConverged])"
  using assms by (simp add: track_object_def tracking_icp_def Let_def)

lemma gate_rejects:
  assumes "\<not> dynamics_check dynConf
             (finite_differences (getTranslationAndEulerAngles P tROTA)
                (getTranslationAndEulerAngles P (m_lastTransformation object)) dt)
             (getTranslationAndEulerAngles P tROTA)"
  shows "fst (gate P dynConf stamp dt tROTA object) = object"
  using assms by (simp add: gate_def Let_def)

lemma track_object_icp_cong:
  assumes "maximumIterations i1 = maximumIterations i2" and "inputTarget i1 = inputTarget i2"
  shows "track_object P dyns mconfs stamp i1 object = track_object P dyns mconfs stamp i2 object"
  by (simp add: track_object_unfold tracking_icp_cong [OF assms] split: sum.splits)

lemma track_object_icp_kept:
  assumes "track_object P dyns mconfs stamp icp object = Inr (icp', object', out)"
  shows "maximumIterations icp' = maximumIterations icp \<and> inputTarget icp' = inputTarget icp"
  using assms
  by (auto simp: track_object_unfold tracking_icp_def Let_def split: sum.splits if_splits)

lemma track_object_flag_false:
  assumes "track_object P dyns mconfs stamp icp object = Inr (icp', object', out)"
    and "\<not> m_lastTransformationValid object'"
  shows "object' = object\<lparr> m_lastTransformationValid := False \<rparr>"
  using assms
  by (auto simp: track_object_unfold gate_def Let_def split: sum.splits if_splits)

lemma track_object_flag_true:
  assumes "track_object P dyns mconfs stamp icp object = Inr (icp', object', out)"
    and "m_lastTransformationValid object'"
  shows "m_lastValidTransform object' = stamp \<and> stamp \<noteq> m_lastValidTransform object"
proof -
  have "stamp \<noteq> m_lastValidTransform object"
  proof
    assume "stamp = m_lastValidTransform object"
    then have "elapsedSeconds stamp object = Fin 0" by (simp add: elapsedSeconds_def)
    then show False using assms
      by (auto simp: track_object_unfold gate_def Let_def dynamics_check_zero_dt
          split: sum.splits if_splits)
  qed
  moreover have "m_lastValidTransform object' = stamp" using assms
    by (auto simp: track_object_unfold gate_def Let_def split: sum.splits if_splits)
  ultimately show ?thesis by simp
qed

section \<open>The loop over the objects\<close>

lemma track_objects_nth:
  assumes "track_objects P dyns mconfs stamp icp objs = Inr (objs', out)"
  shows "length objs' = length objs \<and>
         (\<forall>i<length objs. \<exists>icp' out'.
            track_object P dyns mconfs stamp icp (objs ! i) = Inr (icp', objs' ! i, out'))"
  using assms
proof (induction objs arbitrary: icp objs' out)
  case Nil
  then show ?case by simp
next
  case (Cons object rest)
  from Cons.prems obtain icp1 object1 out1 rest1 out2
    where head: "track_object P dyns mconfs stamp icp object = Inr (icp1, object1, out1)"
      and tail: "track_objects P dyns mconfs stamp icp1 rest = Inr (rest1, out2)"
      and objs': "objs' = object1 # rest1"
    by (auto split: sum.splits)
  from Cons.IH [OF tail] have len: "length rest1 = length rest"
    and each: "\<And>i. i < length rest \<Longrightarrow> \<exists>icp' out'.
        track_object P dyns mconfs stamp icp1 (rest ! i) = Inr (icp', rest1 ! i, out')"
    by auto
  have same: "track_object P dyns mconfs stamp icp1 x = track_object P dyns mconfs stamp icp x" for x
    using track_object_icp_kept [OF head] by (intro track_object_icp_cong) simp_all
  show ?case
  proof (intro conjI allI impI)
    show "length objs' = length (object # rest)" by (simp add: objs' len)
  next
    fix i assume i: "i < length (object # rest)"
    show "\<exists>icp' out'. track_object P dyns mconfs stamp icp ((object # rest) ! i)
        = Inr (icp', objs' ! i, out')"
    proof (cases i)
      case 0
      then show ?thesis using head by (simp add: objs')
    next
      case (Suc j)
      then have "j < length rest" using i by simp
      from each [OF this] show ?thesis by (simp add: Suc objs' same)
    qed
  qed
qed

section \<open>The search and the validation of initialize\<close>

lemma yaw_search_no_improvement:
  assumes "\<forall>k\<in>set ks. \<not> fl_lt (getFitnessScore (align P icp (tryMatrix P center k))) bestErr"
  shows "yaw_search P icp center ks bestErr t = (bestErr, t)"
  using assms by (induction ks) (simp_all add: Let_def)

lemma yaw_search_improvement:
  assumes "\<exists>k\<in>set ks. fl_lt (getFitnessScore (align P icp (tryMatrix P center k))) bestErr"
  shows "\<exists>k\<in>set ks.
           yaw_search P icp center ks bestErr t =
             (getFitnessScore (align P icp (tryMatrix P center k)),
              getFinalTransformation (align P icp (tryMatrix P center k)))
         \<and> fl_lt (getFitnessScore (align P icp (tryMatrix P center k))) bestErr
         \<and> (\<forall>j\<in>set ks. \<not> fl_lt (getFitnessScore (align P icp (tryMatrix P center j)))
                                  (getFitnessScore (align P icp (tryMatrix P center k))))"
  using assms
proof (induction ks arbitrary: bestErr t)
  case Nil
  then show ?case by simp
next
  case (Cons i rest)
  let ?err = "\<lambda>k. getFitnessScore (align P icp (tryMatrix P center k))"
  let ?fin = "\<lambda>k. getFinalTransformation (align P icp (tryMatrix P center k))"
  show ?case
  proof (cases "fl_lt (?err i) bestErr")
    case True
    then have step: "yaw_search P icp center (i # rest) bestErr t
        = yaw_search P icp center rest (?err i) (?fin i)"
      by (simp add: Let_def)
    show ?thesis
    proof (cases "\<exists>k\<in>set rest. fl_lt (?err k) (?err i)")
      case False
      then have "yaw_search P icp center rest (?err i) (?fin i) = (?err i, ?fin i)"
        by (intro yaw_search_no_improvement) simp
      moreover have "\<forall>j\<in>set (i # rest). \<not> fl_lt (?err j) (?err i)"
        using False by (simp add: fl_lt_irrefl)
      ultimately show ?thesis using True step by (intro bexI [of _ i]) simp_all
    next
      case better: True
      from Cons.IH [OF better, of "?fin i"] obtain k where k: "k \<in> set rest"
        and res: "yaw_search P icp center rest (?err i) (?fin i) = (?err k, ?fin k)"
        and lt: "fl_lt (?err k) (?err i)"
        and least: "\<forall>j\<in>set rest. \<not> fl_lt (?err j) (?err k)"
        by blast
      have "fl_lt (?err k) bestErr" using lt True by (rule fl_lt_trans)
      moreover have "\<not> fl_lt (?err i) (?err k)" using lt by (rule fl_lt_asym)
      ultimately show ?thesis using k res least step by (intro bexI [of _ k]) simp_all
    qed
  next
    case False
    then have step: "yaw_search P icp center (i # rest) bestErr t
        = yaw_search P icp center rest bestErr t"
      by (simp add: Let_def)
    from False Cons.prems have "\<exists>k\<in>set rest. fl_lt (?err k) bestErr" by auto
    from Cons.IH [OF this, of t] obtain k where k: "k \<in> set rest"
      and res: "yaw_search P icp center rest bestErr t = (?err k, ?fin k)"
      and lt: "fl_lt (?err k) bestErr"
      and least: "\<forall>j\<in>set rest. \<not> fl_lt (?err j) (?err k)"
      by blast
    have "\<not> fl_lt (?err i) (?err k)"
    proof
      assume "fl_lt (?err i) (?err k)"
      then have "fl_lt (?err i) bestErr" using lt by (rule fl_lt_trans)
      then show False using False by simp
    qed
    then show ?thesis using k res lt least step by (intro bexI [of _ k]) simp_all
  qed
qed

text \<open>Evaluating the search for a registration whose score does not depend on the guess.\<close>

lemma yaw_search_constant_score:
  assumes "\<And>k. getFitnessScore (align P icp (tryMatrix P center k)) = s"
    and "fl_lt s bestErr"
  shows "yaw_search P icp center (i # rest) bestErr t
           = (s, getFinalTransformation (align P icp (tryMatrix P center i)))"
proof -
  have "yaw_search P icp center rest s (getFinalTransformation (align P icp (tryMatrix P center i)))
      = (s, getFinalTransformation (align P icp (tryMatrix P center i)))"
    by (intro yaw_search_no_improvement) (simp add: assms(1) fl_lt_irrefl)
  then show ?thesis using assms by (simp add: Let_def)
qed

lemma check_fit_result:
  assumes "check_fit P markers qs ok = Inr ok'"
  shows "ok' \<longleftrightarrow> ok \<and> list_all (nearest_ok P markers) qs"
  using assms
proof (induction qs arbitrary: ok)
  case Nil
  then show ?case by simp
next
  case (Cons q rest)
  from Cons.prems obtain d where d: "vec_at (snd (nearestKSearch P markers q 1)) 0 = Inr d"
    and rest: "check_fit P markers rest
        (if fl_gt d INIT_MAX_HAUSDORFF_DIST2 then False else ok) = Inr ok'"
    by (auto split: sum.splits)
  from d have "nearest_ok P markers q \<longleftrightarrow> \<not> fl_gt d INIT_MAX_HAUSDORFF_DIST2"
    by (cases "snd (nearestKSearch P markers q 1)")
      (simp_all add: nearest_ok_def vec_at_def)
  with Cons.IH [OF rest] show ?case by auto
qed

lemma knn_centroid_no_marker:
  "knn_centroid P markers 0 t = Inr \<lparr> pt_x = NaN, pt_y = NaN, pt_z = NaN \<rparr>"
  by (simp add: knn_centroid_def centroid_divisor_def)

lemma initialize_object_unfold:
  "initialize_object P mconfs markers icp ok object =
     (case vec_at mconfs (m_markerConfigurationIdx object) of
        Inl e \<Rightarrow> Inl e
      | Inr objMarkers \<Rightarrow>
          (case knn_centroid P markers (length objMarkers) (m_lastTransformation object) of
             Inl e \<Rightarrow> Inl e
           | Inr center \<Rightarrow>
               (case check_fit P markers
                       (map (transformPoint P
                              (snd (yaw_search P (icp\<lparr> inputSource := Some objMarkers \<rparr>) center
                                      [0..<N_YAW] (Fin DBL_MAX) (m_lastTransformation object))))
                          objMarkers) ok of
                  Inl e \<Rightarrow> Inl e
                | Inr ok' \<Rightarrow>
                    Inr (icp\<lparr> inputSource := Some objMarkers \<rparr>, ok',
                         object\<lparr> m_lastTransformation :=
                           snd (yaw_search P (icp\<lparr> inputSource := Some objMarkers \<rparr>) center
                                  [0..<N_YAW] (Fin DBL_MAX) (m_lastTransformation object)) \<rparr>))))"
  by (simp add: initialize_object_def Let_def split: sum.splits)

lemma initialize_object_result:
  assumes "initialize_object P mconfs markers icp ok object = Inr (icp', ok', object')"
  shows "\<exists>objMarkers center.
           vec_at mconfs (m_markerConfigurationIdx object) = Inr objMarkers
         \<and> knn_centroid P markers (length objMarkers) (m_lastTransformation object) = Inr center
         \<and> icp' = icp\<lparr> inputSource := Some objMarkers \<rparr>
         \<and> object' = object\<lparr> m_lastTransformation :=
               snd (yaw_search P (icp\<lparr> inputSource := Some objMarkers \<rparr>) center
                      [0..<N_YAW] (Fin DBL_MAX) (m_lastTransformation object)) \<rparr>
         \<and> (ok' \<longleftrightarrow> ok \<and> object_fits P mconfs markers object')"
proof -
  from assms obtain objMarkers center
    where src: "vec_at mconfs (m_markerConfigurationIdx object) = Inr objMarkers"
      and ctr: "knn_centroid P markers (length objMarkers) (m_lastTransformation object) = Inr center"
    by (auto simp: initialize_object_unfold split: sum.splits)
  let ?best = "snd (yaw_search P (icp\<lparr> inputSource := Some objMarkers \<rparr>) center
                      [0..<N_YAW] (Fin DBL_MAX) (m_lastTransformation object))"
  from assms src ctr have fit: "check_fit P markers (map (transformPoint P ?best) objMarkers) ok = Inr ok'"
    and icp': "icp' = icp\<lparr> inputSource := Some objMarkers \<rparr>"
    and object': "object' = object\<lparr> m_lastTransformation := ?best \<rparr>"
    by (auto simp: initialize_object_unfold split: sum.splits)
  have "ok' \<longleftrightarrow> ok \<and> object_fits P mconfs markers object'"
    using check_fit_result [OF fit] src
    by (simp add: object_fits_def object' list_all_iff)
  then show ?thesis using src ctr icp' object' by blast
qed

lemma initialize_objects_nth:
  assumes "initialize_objects P mconfs markers icp ok objs = Inr (ok', objs')"
  shows "length objs' = length objs
       \<and> (ok' \<longleftrightarrow> ok \<and> (\<forall>i<length objs. object_fits P mconfs markers (objs' ! i)))
       \<and> (\<forall>i<length objs. \<exists>objMarkers center.
             vec_at mconfs (m_markerConfigurationIdx (objs ! i)) = Inr objMarkers
           \<and> knn_centroid P markers (length objMarkers) (m_lastTransformation (objs ! i))
               = Inr center
           \<and> objs' ! i = (objs ! i)\<lparr> m_lastTransformation :=
               snd (yaw_search P (icp\<lparr> inputSource := Some objMarkers \<rparr>) center
                      [0..<N_YAW] (Fin DBL_MAX) (m_lastTransformation (objs ! i))) \<rparr>)"
  using assms
proof (induction objs arbitrary: icp ok ok' objs')
  case Nil
  then show ?case by simp
next
  case (Cons object rest)
  from Cons.prems obtain icp1 ok1 object1 rest1
    where head: "initialize_object P mconfs markers icp ok object = Inr (icp1, ok1, object1)"
      and tail: "initialize_objects P mconfs markers icp1 ok1 rest = Inr (ok', rest1)"
      and objs': "objs' = object1 # rest1"
    by (auto split: sum.splits)
  from initialize_object_result [OF head] obtain objMarkers center
    where src: "vec_at mconfs (m_markerConfigurationIdx object) = Inr objMarkers"
      and ctr: "knn_centroid P markers (length objMarkers) (m_lastTransformation object) = Inr center"
      and icp1: "icp1 = icp\<lparr> inputSource := Some objMarkers \<rparr>"
      and object1: "object1 = object\<lparr> m_lastTransformation :=
               snd (yaw_search P (icp\<lparr> inputSource := Some objMarkers \<rparr>) center
                      [0..<N_YAW] (Fin DBL_MAX) (m_lastTransformation object)) \<rparr>"
      and ok1: "ok1 \<longleftrightarrow> ok \<and> object_fits P mconfs markers object1"
    by blast
  have src_free: "icp1\<lparr> inputSource := s \<rparr> = icp\<lparr> inputSource := s \<rparr>" for s
    by (simp add: icp1)
  note IH = Cons.IH [OF tail, unfolded src_free]
  show ?case
  proof (intro conjI)
    show "length objs' = length (object # rest)" using IH by (simp add: objs')
  next
    have "ok' \<longleftrightarrow> ok1 \<and> (\<forall>i<length rest. object_fits P mconfs markers (rest1 ! i))"
      using IH by simp
    then show "ok' \<longleftrightarrow> ok \<and> (\<forall>i<length (object # rest). object_fits P mconfs markers (objs' ! i))"
      by (auto simp: ok1 objs' less_Suc_eq_0_disj)
  next
    show "\<forall>i<length (object # rest). \<exists>objMarkers center.
             vec_at mconfs (m_markerConfigurationIdx ((object # rest) ! i)) = Inr objMarkers
           \<and> knn_centroid P markers (length objMarkers)
                (m_lastTransformation ((object # rest) ! i)) = Inr center
           \<and> objs' ! i = ((object # rest) ! i)\<lparr> m_lastTransformation :=
               snd (yaw_search P (icp\<lparr> inputSource := Some objMarkers \<rparr>) center
                      [0..<N_YAW] (Fin DBL_MAX) (m_lastTransformation ((object # rest) ! i))) \<rparr>"
    proof (intro allI impI)
      fix i assume i: "i < length (object # rest)"
      show "\<exists>objMarkers center.
             vec_at mconfs (m_markerConfigurationIdx ((object # rest) ! i)) = Inr objMarkers
           \<and> knn_centroid P markers (length objMarkers)
                (m_lastTransformation ((object # rest) ! i)) = Inr center
           \<and> objs' ! i = ((object # rest) ! i)\<lparr> m_lastTransformation :=
               snd (yaw_search P (icp\<lparr> inputSource := Some objMarkers \<rparr>) center
                      [0..<N_YAW] (Fin DBL_MAX) (m_lastTransformation ((object # rest) ! i))) \<rparr>"
      proof (cases i)
        case 0
        then show ?thesis using src ctr object1 by (simp add: objs')
      next
        case (Suc j)
        then have "j < length rest" using i by simp
        with IH show ?thesis by (simp add: Suc objs')
      qed
    qed
  qed
qed

lemma initialize_nth:
  assumes "initialize P tracker markers = Inr (ok, tracker')"
    and "i < length (objects tracker)"
    and "vec_at (m_markerConfigurations tracker) (m_markerConfigurationIdx (objects tracker ! i))
           = Inr objMarkers"
    and "knn_centroid P markers (length objMarkers) (transformation (objects tracker ! i))
           = Inr center"
  shows "objects tracker' ! i = (objects tracker ! i)\<lparr> m_lastTransformation :=
           snd (yaw_search P (init_icp markers objMarkers) center [0..<N_YAW] (Fin DBL_MAX)
                  (transformation (objects tracker ! i))) \<rparr>"
proof -
  from assms(1) obtain objs
    where loop: "initialize_objects P (m_markerConfigurations tracker) markers (icp_setup markers)
                   True (m_objects tracker) = Inr (ok, objs)"
      and tracker': "tracker' = tracker\<lparr> m_objects := objs \<rparr>"
    by (auto simp: initialize_def split: sum.splits)
  from initialize_objects_nth [OF loop] assms(2) obtain objMarkers' center'
    where "vec_at (m_markerConfigurations tracker)
             (m_markerConfigurationIdx (m_objects tracker ! i)) = Inr objMarkers'"
      and "knn_centroid P markers (length objMarkers') (m_lastTransformation (m_objects tracker ! i))
             = Inr center'"
      and "objs ! i = (m_objects tracker ! i)\<lparr> m_lastTransformation :=
             snd (yaw_search P ((icp_setup markers)\<lparr> inputSource := Some objMarkers' \<rparr>) center'
                    [0..<N_YAW] (Fin DBL_MAX) (m_lastTransformation (m_objects tracker ! i))) \<rparr>"
    unfolding objects_def by blast
  with assms(3,4) show ?thesis
    by (simp add: tracker' objects_def transformation_def init_icp_def)
qed

section \<open>One frame, object by object\<close>

lemma ensure_initialized_kept:
  assumes "ensure_initialized P tracker markers = Inr (tracker1, out1)"
  shows "length (objects tracker1) = length (objects tracker)
       \<and> (\<forall>i<length (objects tracker).
             m_lastValidTransform (objects tracker1 ! i) = m_lastValidTransform (objects tracker ! i))
       \<and> (m_initialized tracker \<longrightarrow> tracker1 = tracker)"
proof (cases "m_initialized tracker")
  case True
  then show ?thesis using assms by (simp add: ensure_initialized_def)
next
  case False
  with assms obtain ok objs
    where loop: "initialize_objects P (m_markerConfigurations tracker) markers (icp_setup markers)
                   True (m_objects tracker) = Inr (ok, objs)"
      and tracker1: "tracker1 = tracker\<lparr> m_objects := objs, m_initialized := ok \<rparr>"
    by (auto simp: ensure_initialized_def initialize_def split: sum.splits)
  from initialize_objects_nth [OF loop] have len: "length objs = length (m_objects tracker)"
    and each: "\<And>i. i < length (m_objects tracker) \<Longrightarrow>
        \<exists>t. objs ! i = (m_objects tracker ! i)\<lparr> m_lastTransformation := t \<rparr>"
    by blast+
  have "m_lastValidTransform (objs ! i) = m_lastValidTransform (m_objects tracker ! i)"
    if "i < length (m_objects tracker)" for i
    using each [OF that] by auto
  then show ?thesis using len False by (simp add: tracker1 objects_def)
qed

lemma runICP_nth:
  assumes "runICP P stamp tracker markers = Inr (tracker', out)"
    and "ensure_initialized P tracker markers = Inr (tracker1, out1)"
  shows "length (objects tracker') = length (objects tracker1)
       \<and> (\<forall>i<length (objects tracker1). \<exists>icp' out'.
             track_object P (m_dynamicsConfigurations tracker1) (m_markerConfigurations tracker1)
               stamp (icp_setup markers) (objects tracker1 ! i)
             = Inr (icp', objects tracker' ! i, out'))"
proof -
  from assms obtain objs out2
    where loop: "track_objects P (m_dynamicsConfigurations tracker1)
                   (m_markerConfigurations tracker1) stamp (icp_setup markers)
                   (m_objects tracker1) = Inr (objs, out2)"
      and tracker': "tracker' = tracker1\<lparr> m_objects := objs \<rparr>"
    by (auto simp: runICP_def split: sum.splits)
  from track_objects_nth [OF loop] show ?thesis
    by (simp add: tracker' objects_def)
qed

lemma runICP_initialized:
  assumes "runICP P stamp tracker markers = Inr (tracker', out)"
  shows "\<exists>tracker1 out1. ensure_initialized P tracker markers = Inr (tracker1, out1)"
  using assms by (auto simp: runICP_def split: sum.splits)

section \<open>Running concrete frames\<close>

text \<open>
  The tracker on concrete frames, with the library instance of above: these runs are the
  inputs of the examples that follow the properties.
\<close>

lemma euler_pcl_sel:
  "align (euler_pcl r) = r"
  "nearestKSearch (euler_pcl r) = first_k_search"
  "getTransformation (euler_pcl r) e = e"
  "getTranslationAndEulerAngles (euler_pcl r) t = t"
  "translation (euler_pcl r) t = \<lparr> pt_x = e_x t, pt_y = e_y t, pt_z = e_z t \<rparr>"
  "transformPoint (euler_pcl r) t p =
     \<lparr> pt_x = fl_add (pt_x p) (e_x t), pt_y = fl_add (pt_y p) (e_y t),
       pt_z = fl_add (pt_z p) (e_z t) \<rparr>"
  by (simp_all add: euler_pcl_def)

lemma yaw_search_keep_guess:
  assumes "fl_lt s (Fin DBL_MAX)"
  shows "yaw_search (euler_pcl (keep_guess s)) icp center [0..<N_YAW] (Fin DBL_MAX) t
           = (s, \<lparr> e_x = pt_x center, e_y = pt_y center, e_z = pt_z center,
                    e_roll = Fin 0, e_pitch = Fin 0, e_yaw = Fin 0 \<rparr>)"
proof -
  have "[0..<N_YAW] = 0 # [1..<N_YAW]"
    by (simp add: N_YAW_def upt_rec)
  moreover have "getFitnessScore (align (euler_pcl (keep_guess s)) icp
      (tryMatrix (euler_pcl (keep_guess s)) center k)) = s" for k
    by (simp add: euler_pcl_sel keep_guess_def)
  ultimately show ?thesis
    using yaw_search_constant_score [of "euler_pcl (keep_guess s)" icp center s "Fin DBL_MAX" 0
        "[1..<N_YAW]" t] assms
    by (simp add: euler_pcl_sel keep_guess_def tryMatrix_def)
qed

lemma yaw_search_within_reach:
  "yaw_search (euler_pcl within_reach) icp center [0..<N_YAW] (Fin DBL_MAX) t
     = (Fin 0, \<lparr> e_x = pt_x center, e_y = pt_y center, e_z = pt_z center,
                  e_roll = Fin 0, e_pitch = Fin 0, e_yaw = Fin 0 \<rparr>)"
proof -
  have "[0..<N_YAW] = 0 # [1..<N_YAW]"
    by (simp add: N_YAW_def upt_rec)
  moreover have "getFitnessScore (align (euler_pcl within_reach) icp
      (tryMatrix (euler_pcl within_reach) center k)) = Fin 0" for k
    by (simp add: euler_pcl_sel within_reach_def)
  moreover have "fl_lt (Fin 0) (Fin DBL_MAX)"
    using DBL_MAX_gt_1 by simp
  ultimately show ?thesis
    using yaw_search_constant_score [of "euler_pcl within_reach" icp center "Fin 0" "Fin DBL_MAX" 0
        "[1..<N_YAW]" t]
    by (simp add: euler_pcl_sel within_reach_def tryMatrix_def)
qed

lemma yaw_search_no_correspondence:
  "yaw_search (euler_pcl no_correspondence) icp center ks (Fin DBL_MAX) t = (Fin DBL_MAX, t)"
  by (intro yaw_search_no_improvement) (simp add: euler_pcl_sel no_correspondence_def)

lemma knn_centroid_one_marker:
  "knn_centroid (euler_pcl r) [m] (Suc 0) t = Inr \<lparr> pt_x = fl_div (fl_add (Fin 0) (pt_x m)) (Fin 1),
       pt_y = fl_div (fl_add (Fin 0) (pt_y m)) (Fin 1),
       pt_z = fl_div (fl_add (Fin 0) (pt_z m)) (Fin 1) \<rparr>"
  by (simp add: knn_centroid_def euler_pcl_sel first_k_search_def vec_at_def vec_at_int_def
      centroid_divisor_def)

lemma nearest_ok_one_marker:
  "nearest_ok (euler_pcl r) [m] q \<longleftrightarrow> \<not> fl_gt (sqr_dist q m) INIT_MAX_HAUSDORFF_DIST2"
  by (simp add: nearest_ok_def euler_pcl_sel first_k_search_def)

lemmas frame_defs = update_def runICP_def ensure_initialized_def initialize_def
  initialize_object_def track_object_def gate_def finite_differences_def dynamics_check_def
  violations_def elapsedSeconds_def epoch_def vec_at_def euler_pcl_sel first_k_search_def
  sqr_dist_def ObjectTracker_ctor_def Object_ctor_def pose_def point_def uniform_bounds_def
  icp_setup_def ICP_new_def tracking_icp_def INIT_MAX_HAUSDORFF_DIST2_def
  fl_gt_def fl_ge_def fl_sub_def Let_def

lemma two_objects_run:
  "initialize (euler_pcl (keep_guess (Fin 0)))
       (ObjectTracker_ctor [uniform_bounds 1] [[point 0 0 0], [point 1 0 0]]
          [Object_ctor 0 0 (pose 0 0 0 0 0 0), Object_ctor 1 0 (pose 0 0 0 0 0 0)])
       [point 0 0 0]
     = Inr (False,
            ObjectTracker_ctor [uniform_bounds 1] [[point 0 0 0], [point 1 0 0]]
              [Object_ctor 0 0 (pose 0 0 0 0 0 0), Object_ctor 1 0 (pose 0 0 0 0 0 0)])"
proof -
  have lt: "fl_lt (Fin 0) (Fin DBL_MAX)" using DBL_MAX_gt_1 by simp
  show ?thesis
    by (simp add: initialize_def initialize_object_def knn_centroid_one_marker
        yaw_search_keep_guess [OF lt] vec_at_def euler_pcl_sel first_k_search_def sqr_dist_def
        ObjectTracker_ctor_def Object_ctor_def pose_def point_def
        INIT_MAX_HAUSDORFF_DIST2_def fl_gt_def fl_sub_def Let_def)
qed

lemma one_object_run:
  "initialize (euler_pcl (keep_guess (Fin 0)))
       (ObjectTracker_ctor [uniform_bounds 1] [[point 0 0 0]] [Object_ctor 0 0 (pose 5 5 5 0 0 0)])
       [point 0 0 0]
     = Inr (True,
            ObjectTracker_ctor [uniform_bounds 1] [[point 0 0 0]] [Object_ctor 0 0 (pose 0 0 0 0 0 0)])"
proof -
  have lt: "fl_lt (Fin 0) (Fin DBL_MAX)" using DBL_MAX_gt_1 by simp
  show ?thesis
    by (simp add: initialize_def initialize_object_def knn_centroid_one_marker
        yaw_search_keep_guess [OF lt] vec_at_def euler_pcl_sel first_k_search_def sqr_dist_def
        ObjectTracker_ctor_def Object_ctor_def pose_def point_def
        INIT_MAX_HAUSDORFF_DIST2_def fl_gt_def fl_sub_def Let_def)
qed

lemma failed_batch_run:
  "initialize (euler_pcl (keep_guess (Fin 0)))
       (ObjectTracker_ctor [uniform_bounds 1] [[point 1 0 0]] [Object_ctor 0 0 (pose 5 5 5 0 0 0)])
       [point 0 0 0]
     = Inr (False,
            ObjectTracker_ctor [uniform_bounds 1] [[point 1 0 0]] [Object_ctor 0 0 (pose 0 0 0 0 0 0)])"
proof -
  have lt: "fl_lt (Fin 0) (Fin DBL_MAX)" using DBL_MAX_gt_1 by simp
  show ?thesis
    by (simp add: initialize_def initialize_object_def knn_centroid_one_marker
        yaw_search_keep_guess [OF lt] vec_at_def euler_pcl_sel first_k_search_def sqr_dist_def
        ObjectTracker_ctor_def Object_ctor_def pose_def point_def
        INIT_MAX_HAUSDORFF_DIST2_def fl_gt_def fl_sub_def Let_def)
qed

lemma first_frame_run:
  "update (euler_pcl (keep_guess (Fin 0))) 10
       (ObjectTracker_ctor [uniform_bounds 1] [[point 0 0 0]] [Object_ctor 0 0 (pose 5 5 5 0 0 0)])
       [point 0 0 0]
     = Inr (\<lparr> m_dynamicsConfigurations = [uniform_bounds 1],
              m_markerConfigurations = [[point 0 0 0]],
              m_objects = [\<lparr> m_markerConfigurationIdx = 0, m_dynamicsConfigurationIdx = 0,
                             m_lastTransformation = pose 0 0 0 0 0 0,
                             m_lastValidTransform = 10, m_lastTransformationValid = True \<rparr>],
              m_initialized = True \<rparr>, [])"
proof -
  have lt: "fl_lt (Fin 0) (Fin DBL_MAX)" using DBL_MAX_gt_1 by simp
  show ?thesis
    by (simp add: frame_defs knn_centroid_one_marker yaw_search_keep_guess [OF lt] keep_guess_def)
qed

lemma clock_back_run:
  "update (euler_pcl (keep_guess (Fin 0))) 5
       \<lparr> m_dynamicsConfigurations = [uniform_bounds 1],
         m_markerConfigurations = [[point 0 0 0]],
         m_objects = [\<lparr> m_markerConfigurationIdx = 0, m_dynamicsConfigurationIdx = 0,
                        m_lastTransformation = pose 0 0 0 0 0 0,
                        m_lastValidTransform = 10, m_lastTransformationValid = True \<rparr>],
         m_initialized = True \<rparr>
       [point 0 0 0]
     = Inr (\<lparr> m_dynamicsConfigurations = [uniform_bounds 1],
              m_markerConfigurations = [[point 0 0 0]],
              m_objects = [\<lparr> m_markerConfigurationIdx = 0, m_dynamicsConfigurationIdx = 0,
                             m_lastTransformation = pose 0 0 0 0 0 0,
                             m_lastValidTransform = 5, m_lastTransformationValid = True \<rparr>],
              m_initialized = True \<rparr>, [])"
  by (simp add: frame_defs keep_guess_def)

lemma empty_configuration_run:
  "update (euler_pcl no_correspondence) 10
       (ObjectTracker_ctor [uniform_bounds 1] [[]] [Object_ctor 0 0 (pose 5 5 5 0 0 0)])
       [point 0 0 0]
     = Inr (\<lparr> m_dynamicsConfigurations = [uniform_bounds 1],
              m_markerConfigurations = [[]],
              m_objects = [Object_ctor 0 0 (pose 5 5 5 0 0 0)],
              m_initialized = True \<rparr>,
            [NotConverged])"
  by (simp add: frame_defs knn_centroid_no_marker yaw_search_no_correspondence
      no_correspondence_def)

section \<open>The dynamics gate\<close>

text \<open>
  Claim C1. In a pass of the tracking loop in which the registration converged, the
  object's validity flag ends up true exactly if the eight strict comparisons all hold:
  \<open>|vx|\<close>, \<open>|vy|\<close>, \<open>|vz|\<close> below the per-axis velocity bounds, \<open>|wroll|\<close>,
  \<open>|wpitch|\<close>, \<open>|wyaw|\<close> below the per-axis rate bounds, and \<open>|roll|\<close>, \<open>|pitch|\<close> of
  the new pose below the attitude bounds. When it does, the object's transform is the
  registration's final transform and its time stamp is the frame's. For each of the eight
  compared values: at the bound minus \<open>e\<close> (with \<open>0 < e < 2 b\<close>) the pose is accepted if
  the other seven comparisons hold, and at the bound plus \<open>e\<close> it is rejected.
\<close>

theorem gate_accepts_iff_all_bounds_hold:
  assumes run: "track_object P dyns mconfs stamp icp object = Inr (icp', object', out)"
    and dyn: "vec_at dyns (m_dynamicsConfigurationIdx object) = Inr dynConf"
    and src: "vec_at mconfs (m_markerConfigurationIdx object) = Inr source"
    and a: "a = align P (tracking_icp icp dynConf (elapsedSeconds stamp object) source)
                  (m_lastTransformation object)"
    and conv: "hasConverged a"
    and new: "new = getTranslationAndEulerAngles P (getFinalTransformation a)"
    and prev: "prev = getTranslationAndEulerAngles P (m_lastTransformation object)"
    and v: "v = finite_differences new prev (elapsedSeconds stamp object)"
  shows "(m_lastTransformationValid object' \<longleftrightarrow>
            fl_lt (fabs (vx v)) (maxXVelocity dynConf)
          \<and> fl_lt (fabs (vy v)) (maxYVelocity dynConf)
          \<and> fl_lt (fabs (vz v)) (maxZVelocity dynConf)
          \<and> fl_lt (fabs (wroll v)) (maxRollRate dynConf)
          \<and> fl_lt (fabs (wpitch v)) (maxPitchRate dynConf)
          \<and> fl_lt (fabs (wyaw v)) (maxYawRate dynConf)
          \<and> fl_lt (fabs (e_roll new)) (maxRoll dynConf)
          \<and> fl_lt (fabs (e_pitch new)) (maxPitch dynConf))
       \<and> (m_lastTransformationValid object' \<longrightarrow>
            m_lastTransformation object' = getFinalTransformation a
          \<and> m_lastValidTransform object' = stamp)
       \<and> (\<forall>k<8. \<forall>b e. checked_pairs dynConf v new ! k = (Fin (b - e), Fin b)
              \<and> 0 < e \<and> e < 2 * b
              \<and> (\<forall>j<8. j \<noteq> k \<longrightarrow> below (checked_pairs dynConf v new ! j))
            \<longrightarrow> m_lastTransformationValid object')
       \<and> (\<forall>k<8. \<forall>b e. checked_pairs dynConf v new ! k = (Fin (b + e), Fin b) \<and> 0 < e
            \<longrightarrow> \<not> m_lastTransformationValid object')"
proof -
  let ?obj = "object\<lparr> m_lastTransformationValid := False \<rparr>"
  let ?dt = "elapsedSeconds stamp object"
  have "gate P dynConf stamp ?dt (getFinalTransformation a) ?obj = (object', out)"
    using run track_object_converged [OF dyn src conv [unfolded a]] by (auto simp: a)
  then have obj': "object' = fst (gate P dynConf stamp ?dt (getFinalTransformation a) ?obj)"
    by simp
  have valid: "m_lastTransformationValid object' \<longleftrightarrow> dynamics_check dynConf v new"
    unfolding obj' by (simp add: gate_def Let_def new prev v)
  have commit: "m_lastTransformationValid object' \<longrightarrow>
      m_lastTransformation object' = getFinalTransformation a \<and> m_lastValidTransform object' = stamp"
    unfolding obj' by (simp add: gate_def Let_def)
  have minus: "m_lastTransformationValid object'"
    if k: "k < 8" and at: "checked_pairs dynConf v new ! k = (Fin (b - e), Fin b)"
      and e: "0 < e" "e < 2 * b"
      and others: "\<forall>j<8. j \<noteq> k \<longrightarrow> below (checked_pairs dynConf v new ! j)" for k b e
  proof -
    have "below (checked_pairs dynConf v new ! j)" if "j < 8" for j
      using that others at below_bound_minus [OF e] by (cases "j = k") simp_all
    then show ?thesis by (simp add: valid dynamics_check_nth)
  qed
  have plus: "\<not> m_lastTransformationValid object'"
    if k: "k < 8" and at: "checked_pairs dynConf v new ! k = (Fin (b + e), Fin b)" and e: "0 < e"
    for k b e
  proof
    assume "m_lastTransformationValid object'"
    then have "below (checked_pairs dynConf v new ! k)"
      using k by (simp add: valid dynamics_check_nth)
    then show False using at not_below_bound_plus [OF e, of b] by simp
  qed
  show ?thesis
    using valid commit minus plus by (auto simp: dynamics_check_def)
qed

text \<open>
  A frame one second after the epoch with bound 1 on every axis: a step of \<open>1/2\<close> in
  \<open>x\<close> is accepted, a step of \<open>3/2\<close> is rejected.
\<close>

theorem gate_accepts_iff_all_bounds_hold_witness:
  "track_object (euler_pcl (converge_to (pose (1/2) 0 0 0 0 0) (Fin 0))) [uniform_bounds 1]
       [[point 0 0 0]] 1 (icp_setup [point 0 0 0]) (Object_ctor 0 0 (pose 0 0 0 0 0 0))
     = Inr (tracking_icp (icp_setup [point 0 0 0]) (uniform_bounds 1) (Fin 1) [point 0 0 0],
            \<lparr> m_markerConfigurationIdx = 0, m_dynamicsConfigurationIdx = 0,
              m_lastTransformation = pose (1/2) 0 0 0 0 0, m_lastValidTransform = 1,
              m_lastTransformationValid = True \<rparr>, [])
   \<and> track_object (euler_pcl (converge_to (pose (3/2) 0 0 0 0 0) (Fin 0))) [uniform_bounds 1]
       [[point 0 0 0]] 1 (icp_setup [point 0 0 0]) (Object_ctor 0 0 (pose 0 0 0 0 0 0))
     = Inr (tracking_icp (icp_setup [point 0 0 0]) (uniform_bounds 1) (Fin 1) [point 0 0 0],
            \<lparr> m_markerConfigurationIdx = 0, m_dynamicsConfigurationIdx = 0,
              m_lastTransformation = pose 0 0 0 0 0 0, m_lastValidTransform = 0,
              m_lastTransformationValid = False \<rparr>,
            [DynamicCheckFailed [(''vx'', Fin (3/2), Fin 1)]])"
proof -
  let ?D = "[uniform_bounds 1]" and ?M = "[[point 0 0 0]]" and ?I = "icp_setup [point 0 0 0]"
  let ?O = "Object_ctor 0 0 (pose 0 0 0 0 0 0)"
  let ?I' = "tracking_icp ?I (uniform_bounds 1) (Fin 1) [point 0 0 0]"
  let ?O1 = "\<lparr> m_markerConfigurationIdx = 0, m_dynamicsConfigurationIdx = 0,
      m_lastTransformation = pose (1/2) 0 0 0 0 0, m_lastValidTransform = 1,
      m_lastTransformationValid = True \<rparr>"
  let ?O2 = "\<lparr> m_markerConfigurationIdx = 0, m_dynamicsConfigurationIdx = 0,
      m_lastTransformation = pose 0 0 0 0 0 0, m_lastValidTransform = 0,
      m_lastTransformationValid = False \<rparr>"
  have dyn: "vec_at ?D (m_dynamicsConfigurationIdx ?O) = Inr (uniform_bounds 1)"
    and src: "vec_at ?M (m_markerConfigurationIdx ?O) = Inr [point 0 0 0]"
    by (simp_all add: vec_at_def Object_ctor_def)
  have dt: "elapsedSeconds 1 ?O = Fin 1"
    by (simp add: elapsedSeconds_def Object_ctor_def epoch_def)
  note defs = track_object_def vec_at_def Object_ctor_def euler_pcl_def converge_to_def
    gate_def finite_differences_def dynamics_check_def uniform_bounds_def pose_def
    elapsedSeconds_def epoch_def fl_sub_def tracking_icp_def violations_def fl_ge_def Let_def
  have run1: "track_object (euler_pcl (converge_to (pose (1/2) 0 0 0 0 0) (Fin 0))) ?D ?M 1 ?I ?O
      = Inr (?I', ?O1, [])"
    by (simp add: defs)
  have run2: "track_object (euler_pcl (converge_to (pose (3/2) 0 0 0 0 0) (Fin 0))) ?D ?M 1 ?I ?O
      = Inr (?I', ?O2, [DynamicCheckFailed [(''vx'', Fin (3/2), Fin 1)]])"
    by (simp add: defs)
  have conv: "hasConverged (align (euler_pcl (converge_to t (Fin 0))) i g)" for t i g
    by (simp add: euler_pcl_def converge_to_def)
  have at1: "checked_pairs (uniform_bounds 1)
      (finite_differences (pose (1/2) 0 0 0 0 0) (pose 0 0 0 0 0 0) (Fin 1)) (pose (1/2) 0 0 0 0 0) ! 0
      = (Fin (1 - 1/2), Fin 1)"
    by (simp add: checked_pairs_def finite_differences_def pose_def uniform_bounds_def fl_sub_def)
  have at2: "checked_pairs (uniform_bounds 1)
      (finite_differences (pose (3/2) 0 0 0 0 0) (pose 0 0 0 0 0 0) (Fin 1)) (pose (3/2) 0 0 0 0 0) ! 0
      = (Fin (1 + 1/2), Fin 1)"
    by (simp add: checked_pairs_def finite_differences_def pose_def uniform_bounds_def fl_sub_def)
  have t1: "getTranslationAndEulerAngles (euler_pcl r) t = t" for r t
    by (simp add: euler_pcl_def)
  have f1: "getFinalTransformation (align (euler_pcl (converge_to t (Fin 0))) i g) = t" for t i g
    by (simp add: euler_pcl_def converge_to_def)
  have lastT: "m_lastTransformation ?O = pose 0 0 0 0 0 0"
    by (simp add: Object_ctor_def)
  have "\<not> m_lastTransformationValid ?O2"
    using gate_accepts_iff_all_bounds_hold [OF run2 dyn src refl conv refl refl refl]
      at2 by (simp add: t1 f1 dt lastT)
  moreover have "m_lastTransformationValid ?O1 \<longrightarrow>
      m_lastTransformation ?O1 = pose (1/2) 0 0 0 0 0 \<and> m_lastValidTransform ?O1 = 1"
    using gate_accepts_iff_all_bounds_hold [OF run1 dyn src refl conv refl refl refl]
    by (simp add: t1 f1 dt lastT)
  ultimately show ?thesis using run1 run2 by simp
qed

text \<open>
  Claim C9, as the code has it. In a pass in which the registration converged, the pose
  is accepted whenever the six rates, the yaw rate among them, and \<open>|roll|\<close> and
  \<open>|pitch|\<close> of the new pose are below their bounds; a yaw rate that is not below its
  bound rejects the pose. The yaw of the new pose is compared with nothing: the check
  gives the same verdict for any other yaw with the same rates, and the rates are the same
  when the new and the previous yaw are shifted by the same angle.
\<close>

theorem yaw_enters_only_through_its_rate:
  assumes run: "track_object P dyns mconfs stamp icp object = Inr (icp', object', out)"
    and dyn: "vec_at dyns (m_dynamicsConfigurationIdx object) = Inr dynConf"
    and src: "vec_at mconfs (m_markerConfigurationIdx object) = Inr source"
    and a: "a = align P (tracking_icp icp dynConf (elapsedSeconds stamp object) source)
                  (m_lastTransformation object)"
    and conv: "hasConverged a"
    and new: "new = getTranslationAndEulerAngles P (getFinalTransformation a)"
    and prev: "prev = getTranslationAndEulerAngles P (m_lastTransformation object)"
    and v: "v = finite_differences new prev (elapsedSeconds stamp object)"
  shows "(fl_lt (fabs (vx v)) (maxXVelocity dynConf)
          \<and> fl_lt (fabs (vy v)) (maxYVelocity dynConf)
          \<and> fl_lt (fabs (vz v)) (maxZVelocity dynConf)
          \<and> fl_lt (fabs (wroll v)) (maxRollRate dynConf)
          \<and> fl_lt (fabs (wpitch v)) (maxPitchRate dynConf)
          \<and> fl_lt (fabs (wyaw v)) (maxYawRate dynConf)
          \<and> fl_lt (fabs (e_roll new)) (maxRoll dynConf)
          \<and> fl_lt (fabs (e_pitch new)) (maxPitch dynConf)
          \<longrightarrow> m_lastTransformationValid object')
       \<and> (\<not> fl_lt (fabs (wyaw v)) (maxYawRate dynConf) \<longrightarrow> \<not> m_lastTransformationValid object')
       \<and> (\<forall>y. dynamics_check dynConf v (new\<lparr> e_yaw := y \<rparr>) \<longleftrightarrow> dynamics_check dynConf v new)
       \<and> (\<forall>y y0 d dt.
             finite_differences (new\<lparr> e_yaw := Fin (y + d) \<rparr>) (prev\<lparr> e_yaw := Fin (y0 + d) \<rparr>) dt
           = finite_differences (new\<lparr> e_yaw := Fin y \<rparr>) (prev\<lparr> e_yaw := Fin y0 \<rparr>) dt)"
proof -
  let ?obj = "object\<lparr> m_lastTransformationValid := False \<rparr>"
  let ?dt = "elapsedSeconds stamp object"
  have "(icp', object', out) =
      (tracking_icp icp dynConf ?dt source,
       gate P dynConf stamp ?dt (getFinalTransformation a) ?obj)"
    using trans [OF run [symmetric] track_object_converged [OF dyn src conv [unfolded a]]]
    unfolding a by (simp only: sum.inject)
  then have obj': "object' = fst (gate P dynConf stamp ?dt (getFinalTransformation a) ?obj)"
    by (metis fst_conv snd_conv)
  have valid: "m_lastTransformationValid object' \<longleftrightarrow> dynamics_check dynConf v new"
    unfolding obj' by (simp add: gate_def Let_def new prev v)
  show ?thesis
    unfolding valid
    by (simp add: dynamics_check_yaw_free finite_differences_yaw_shift) (simp add: dynamics_check_def)
qed

text \<open>
  Claim C9 as stated accepts a large yaw change provided the other rates and the
  attitude are within bounds. A yaw change of 3 in one second with every bound 1, the
  other five rates 0 and roll and pitch 0, is rejected: the yaw rate is checked.
\<close>

theorem large_yaw_change_counterexample:
  "track_object (euler_pcl (converge_to (pose 0 0 0 0 0 3) (Fin 0))) [uniform_bounds 1]
       [[point 0 0 0]] 1 (icp_setup [point 0 0 0]) (Object_ctor 0 0 (pose 0 0 0 0 0 0))
     = Inr (tracking_icp (icp_setup [point 0 0 0]) (uniform_bounds 1) (Fin 1) [point 0 0 0],
            Object_ctor 0 0 (pose 0 0 0 0 0 0),
            [DynamicCheckFailed [(''wyaw'', Fin 3, Fin 1)]])
   \<and> finite_differences (pose 0 0 0 0 0 3) (pose 0 0 0 0 0 0) (Fin 1)
       = \<lparr> vx = Fin 0, vy = Fin 0, vz = Fin 0, wroll = Fin 0, wpitch = Fin 0, wyaw = Fin 3 \<rparr>"
  by (simp add: frame_defs converge_to_def)

text \<open>
  A new pose with yaw 300 in a frame read 1000 seconds after the last accepted one: the
  yaw rate is \<open>3/10\<close>, below the bound 1, and the pose is accepted.
\<close>

theorem yaw_enters_only_through_its_rate_witness:
  "track_object (euler_pcl (converge_to (pose 0 0 0 0 0 300) (Fin 0))) [uniform_bounds 1]
       [[point 0 0 0]] 1000 (icp_setup [point 0 0 0]) (Object_ctor 0 0 (pose 0 0 0 0 0 0))
     = Inr (tracking_icp (icp_setup [point 0 0 0]) (uniform_bounds 1) (Fin 1000) [point 0 0 0],
            \<lparr> m_markerConfigurationIdx = 0, m_dynamicsConfigurationIdx = 0,
              m_lastTransformation = pose 0 0 0 0 0 300, m_lastValidTransform = 1000,
              m_lastTransformationValid = True \<rparr>, [])
   \<and> finite_differences (pose 0 0 0 0 0 300) (pose 0 0 0 0 0 0) (Fin 1000)
       = \<lparr> vx = Fin 0, vy = Fin 0, vz = Fin 0, wroll = Fin 0, wpitch = Fin 0, wyaw = Fin (3/10) \<rparr>"
proof -
  let ?P = "euler_pcl (converge_to (pose 0 0 0 0 0 300) (Fin 0))"
  let ?D = "[uniform_bounds 1]" and ?M = "[[point 0 0 0]]" and ?I = "icp_setup [point 0 0 0]"
  let ?O = "Object_ctor 0 0 (pose 0 0 0 0 0 0)"
  let ?O' = "\<lparr> m_markerConfigurationIdx = 0, m_dynamicsConfigurationIdx = 0,
      m_lastTransformation = pose 0 0 0 0 0 300, m_lastValidTransform = 1000,
      m_lastTransformationValid = True \<rparr>"
  have dyn: "vec_at ?D (m_dynamicsConfigurationIdx ?O) = Inr (uniform_bounds 1)"
    and src: "vec_at ?M (m_markerConfigurationIdx ?O) = Inr [point 0 0 0]"
    by (simp_all add: vec_at_def Object_ctor_def)
  have conv: "hasConverged (align ?P i g)" for i g
    by (simp add: euler_pcl_sel converge_to_def)
  have run: "track_object ?P ?D ?M 1000 ?I ?O
      = Inr (tracking_icp ?I (uniform_bounds 1) (Fin 1000) [point 0 0 0], ?O', [])"
    by (simp add: frame_defs converge_to_def)
  have rates: "finite_differences (pose 0 0 0 0 0 300) (pose 0 0 0 0 0 0) (Fin 1000)
      = \<lparr> vx = Fin 0, vy = Fin 0, vz = Fin 0, wroll = Fin 0, wpitch = Fin 0, wyaw = Fin (3/10) \<rparr>"
    by (simp add: finite_differences_def pose_def fl_sub_def)
  have "fl_lt (fabs (wyaw (finite_differences (pose 0 0 0 0 0 300) (pose 0 0 0 0 0 0) (Fin 1000))))
      (maxYawRate (uniform_bounds 1)) \<or> \<not> m_lastTransformationValid ?O'"
    using yaw_enters_only_through_its_rate [OF run dyn src refl conv refl refl refl]
    by (auto simp: euler_pcl_sel converge_to_def elapsedSeconds_def Object_ctor_def epoch_def)
  then show ?thesis using run rates by simp
qed

section \<open>Rejected and accepted frames\<close>

text \<open>
  Claim C2, as the code has it. \<^verbatim>\<open>update\<close> first runs \<^verbatim>\<open>initialize\<close> if the
  tracker is not initialized yet, and that step writes into the objects. Measured from
  the state at the start of the tracking loop (which is the state before the call when the
  tracker was initialized already): if the registration of an object does not converge,
  or its dynamics check fails, then after the call the object's \<^verbatim>\<open>transformation()\<close>
  and its time stamp are unchanged and \<^verbatim>\<open>lastTransformationValid()\<close> is false; and
  every object of the tracker has had its pass of the loop.
\<close>

theorem rejected_frame_keeps_pose:
  assumes run: "update P stamp tracker pointCloud = Inr (tracker', out)"
    and init: "ensure_initialized P tracker pointCloud = Inr (tracker1, out1)"
    and i: "i < length (objects tracker1)"
    and object: "object = objects tracker1 ! i"
    and dyn: "vec_at (m_dynamicsConfigurations tracker1) (m_dynamicsConfigurationIdx object)
                = Inr dynConf"
    and src: "vec_at (m_markerConfigurations tracker1) (m_markerConfigurationIdx object)
                = Inr source"
    and a: "a = align P (tracking_icp (icp_setup pointCloud) dynConf
                           (elapsedSeconds stamp object) source) (m_lastTransformation object)"
    and new: "new = getTranslationAndEulerAngles P (getFinalTransformation a)"
    and prev: "prev = getTranslationAndEulerAngles P (m_lastTransformation object)"
    and rejected: "\<not> hasConverged a
        \<or> \<not> dynamics_check dynConf (finite_differences new prev (elapsedSeconds stamp object)) new"
  shows "transformation (objects tracker' ! i) = transformation object
       \<and> \<not> lastTransformationValid (objects tracker' ! i)
       \<and> m_lastValidTransform (objects tracker' ! i) = m_lastValidTransform object
       \<and> length (objects tracker') = length (objects tracker1)
       \<and> (\<forall>j<length (objects tracker1). \<exists>icp' out'.
             track_object P (m_dynamicsConfigurations tracker1) (m_markerConfigurations tracker1)
               stamp (icp_setup pointCloud) (objects tracker1 ! j)
             = Inr (icp', objects tracker' ! j, out'))
       \<and> (m_initialized tracker \<longrightarrow> tracker1 = tracker)"
proof -
  note nth = runICP_nth [OF run [unfolded update_def] init]
  from nth i obtain icp' out'
    where pass: "track_object P (m_dynamicsConfigurations tracker1)
        (m_markerConfigurations tracker1) stamp (icp_setup pointCloud) object
        = Inr (icp', objects tracker' ! i, out')"
    unfolding object by blast
  have "objects tracker' ! i = object\<lparr> m_lastTransformationValid := False \<rparr>"
  proof (cases "hasConverged a")
    case False
    then show ?thesis
      using pass track_object_not_converged [OF dyn src, of P "icp_setup pointCloud" stamp]
      by (simp add: a)
  next
    case True
    with rejected have no: "\<not> dynamics_check dynConf
        (finite_differences new prev (elapsedSeconds stamp object)) new"
      by simp
    have "(icp', objects tracker' ! i, out') =
        (tracking_icp (icp_setup pointCloud) dynConf (elapsedSeconds stamp object) source,
         gate P dynConf stamp (elapsedSeconds stamp object) (getFinalTransformation a)
           (object\<lparr> m_lastTransformationValid := False \<rparr>))"
      using trans [OF pass [symmetric] track_object_converged [OF dyn src True [unfolded a]]]
      unfolding a by (simp only: sum.inject)
    then have "objects tracker' ! i = fst (gate P dynConf stamp (elapsedSeconds stamp object)
        (getFinalTransformation a) (object\<lparr> m_lastTransformationValid := False \<rparr>))"
      by (metis fst_conv snd_conv)
    also have "\<dots> = object\<lparr> m_lastTransformationValid := False \<rparr>"
      using no by (intro gate_rejects) (simp add: new prev)
    finally show ?thesis .
  qed
  then have "transformation (objects tracker' ! i) = transformation object
      \<and> \<not> lastTransformationValid (objects tracker' ! i)
      \<and> m_lastValidTransform (objects tracker' ! i) = m_lastValidTransform object"
    by (simp add: transformation_def lastTransformationValid_def)
  then show ?thesis using nth ensure_initialized_kept [OF init] by simp
qed

text \<open>
  Claim C2 as stated compares with the value before the call. On a tracker that is not
  initialized yet, one call moves the object from \<open>(5, 5, 5)\<close> to the marker at the
  origin during initialization, and the registration of the tracking loop then does not
  converge (the velocity bound 0 gives a correspondence distance of 0): the frame is
  rejected for the object, and its \<^verbatim>\<open>transformation()\<close> is not what it was before.
\<close>

theorem rejected_frame_keeps_pose_counterexample:
  "update (euler_pcl within_reach) 1
       (ObjectTracker_ctor [uniform_bounds 0] [[point 0 0 0]] [Object_ctor 0 0 (pose 5 5 5 0 0 0)])
       [point 0 0 0]
     = Inr (\<lparr> m_dynamicsConfigurations = [uniform_bounds 0],
              m_markerConfigurations = [[point 0 0 0]],
              m_objects = [Object_ctor 0 0 (pose 0 0 0 0 0 0)],
              m_initialized = True \<rparr>,
            [NotConverged])
   \<and> transformation (Object_ctor 0 0 (pose 0 0 0 0 0 0))
       \<noteq> transformation (Object_ctor 0 0 (pose 5 5 5 0 0 0))"
  by (simp add: frame_defs knn_centroid_one_marker yaw_search_within_reach within_reach_def
      transformation_def)

text \<open>
  An initialized tracker and a registration that asks for a step of \<open>3/2\<close> in one
  second against a bound of 1: the frame is rejected and the tracker is as before.
\<close>

theorem rejected_frame_keeps_pose_witness:
  "update (euler_pcl (converge_to (pose (3/2) 0 0 0 0 0) (Fin 0))) 1
       \<lparr> m_dynamicsConfigurations = [uniform_bounds 1],
         m_markerConfigurations = [[point 0 0 0]],
         m_objects = [Object_ctor 0 0 (pose 0 0 0 0 0 0)],
         m_initialized = True \<rparr>
       [point 0 0 0]
     = Inr (\<lparr> m_dynamicsConfigurations = [uniform_bounds 1],
              m_markerConfigurations = [[point 0 0 0]],
              m_objects = [Object_ctor 0 0 (pose 0 0 0 0 0 0)],
              m_initialized = True \<rparr>,
            [DynamicCheckFailed [(''vx'', Fin (3/2), Fin 1)]])
   \<and> transformation (Object_ctor 0 0 (pose 0 0 0 0 0 0)) = pose 0 0 0 0 0 0
   \<and> \<not> lastTransformationValid (Object_ctor 0 0 (pose 0 0 0 0 0 0))"
proof -
  let ?P = "euler_pcl (converge_to (pose (3/2) 0 0 0 0 0) (Fin 0))"
  let ?object = "Object_ctor 0 0 (pose 0 0 0 0 0 0)"
  let ?tracker = "\<lparr> m_dynamicsConfigurations = [uniform_bounds 1],
      m_markerConfigurations = [[point 0 0 0]], m_objects = [?object], m_initialized = True \<rparr>"
  have run: "update ?P 1 ?tracker [point 0 0 0]
      = Inr (?tracker, [DynamicCheckFailed [(''vx'', Fin (3/2), Fin 1)]])"
    by (simp add: frame_defs converge_to_def)
  have init: "ensure_initialized ?P ?tracker [point 0 0 0] = Inr (?tracker, [])"
    by (simp add: ensure_initialized_def)
  have i: "0 < length (objects ?tracker)" and object: "?object = objects ?tracker ! 0"
    by (simp_all add: objects_def)
  have dyn: "vec_at (m_dynamicsConfigurations ?tracker) (m_dynamicsConfigurationIdx ?object)
      = Inr (uniform_bounds 1)"
    and src: "vec_at (m_markerConfigurations ?tracker) (m_markerConfigurationIdx ?object)
      = Inr [point 0 0 0]"
    by (simp_all add: vec_at_def Object_ctor_def)
  have rejected: "\<not> hasConverged (align ?P (tracking_icp (icp_setup [point 0 0 0])
        (uniform_bounds 1) (elapsedSeconds 1 ?object) [point 0 0 0]) (m_lastTransformation ?object))
    \<or> \<not> dynamics_check (uniform_bounds 1)
        (finite_differences
           (getTranslationAndEulerAngles ?P (getFinalTransformation (align ?P
              (tracking_icp (icp_setup [point 0 0 0]) (uniform_bounds 1)
                 (elapsedSeconds 1 ?object) [point 0 0 0]) (m_lastTransformation ?object))))
           (getTranslationAndEulerAngles ?P (m_lastTransformation ?object))
           (elapsedSeconds 1 ?object))
        (getTranslationAndEulerAngles ?P (getFinalTransformation (align ?P
              (tracking_icp (icp_setup [point 0 0 0]) (uniform_bounds 1)
                 (elapsedSeconds 1 ?object) [point 0 0 0]) (m_lastTransformation ?object))))"
    by (simp add: euler_pcl_sel converge_to_def dynamics_check_def finite_differences_def
        uniform_bounds_def pose_def Object_ctor_def elapsedSeconds_def epoch_def fl_sub_def)
  from rejected_frame_keeps_pose [OF run init i object dyn src refl refl refl rejected]
  have "transformation (objects ?tracker ! 0) = transformation ?object
      \<and> \<not> lastTransformationValid (objects ?tracker ! 0)"
    by simp
  then show ?thesis using run
    by (simp add: objects_def transformation_def Object_ctor_def)
qed

text \<open>
  Claim C8, as the code has it. In an \<^verbatim>\<open>update\<close> call the time stamp of an object
  changes only if the call sets the object's validity flag; an accepted frame sets the
  stamp to the clock reading of the call, which then differs from the old stamp (with an
  elapsed time of zero every rate is infinite or NaN and the check fails); and if the clock
  reading is not earlier than the old stamp, the new stamp is strictly greater.
\<close>

theorem stamp_moves_only_on_acceptance:
  assumes run: "update P stamp tracker pointCloud = Inr (tracker', out)"
    and i: "i < length (objects tracker)"
  shows "(m_lastValidTransform (objects tracker' ! i) \<noteq> m_lastValidTransform (objects tracker ! i)
            \<longrightarrow> lastTransformationValid (objects tracker' ! i))
       \<and> (lastTransformationValid (objects tracker' ! i)
            \<longrightarrow> m_lastValidTransform (objects tracker' ! i) = stamp
              \<and> stamp \<noteq> m_lastValidTransform (objects tracker ! i))
       \<and> (lastTransformationValid (objects tracker' ! i)
              \<and> m_lastValidTransform (objects tracker ! i) \<le> stamp
            \<longrightarrow> m_lastValidTransform (objects tracker ! i)
                  < m_lastValidTransform (objects tracker' ! i))"
proof -
  from runICP_initialized [OF run [unfolded update_def]] obtain tracker1 out1
    where init: "ensure_initialized P tracker pointCloud = Inr (tracker1, out1)"
    by blast
  note kept = ensure_initialized_kept [OF init]
  from kept i have i1: "i < length (objects tracker1)"
    and stamp1: "m_lastValidTransform (objects tracker1 ! i) = m_lastValidTransform (objects tracker ! i)"
    by simp_all
  from runICP_nth [OF run [unfolded update_def] init] i1 obtain icp' out'
    where pass: "track_object P (m_dynamicsConfigurations tracker1)
        (m_markerConfigurations tracker1) stamp (icp_setup pointCloud) (objects tracker1 ! i)
        = Inr (icp', objects tracker' ! i, out')"
    by blast
  have moved: "m_lastTransformationValid (objects tracker' ! i)"
    if changed: "m_lastValidTransform (objects tracker' ! i)
        \<noteq> m_lastValidTransform (objects tracker ! i)"
  proof (rule ccontr)
    assume "\<not> m_lastTransformationValid (objects tracker' ! i)"
    from track_object_flag_false [OF pass this]
    have "m_lastValidTransform (objects tracker' ! i)
        = m_lastValidTransform ((objects tracker1 ! i)\<lparr> m_lastTransformationValid := False \<rparr>)"
      by (rule arg_cong)
    then have "m_lastValidTransform (objects tracker' ! i)
        = m_lastValidTransform (objects tracker ! i)"
      by (simp add: stamp1)
    with changed show False by (rule notE)
  qed
  have accepted: "m_lastValidTransform (objects tracker' ! i) = stamp
      \<and> stamp \<noteq> m_lastValidTransform (objects tracker ! i)"
    if "m_lastTransformationValid (objects tracker' ! i)"
    using track_object_flag_true [OF pass that] unfolding stamp1 .
  have later: "m_lastValidTransform (objects tracker ! i)
      < m_lastValidTransform (objects tracker' ! i)"
    if "m_lastTransformationValid (objects tracker' ! i)"
      and "m_lastValidTransform (objects tracker ! i) \<le> stamp"
    using accepted [OF that(1)] that(2) by linarith
  show ?thesis
    unfolding lastTransformationValid_def
    using moved accepted later by blast
qed

text \<open>
  Claim C8 as stated fails when the clock steps back between two frames
  (\<^verbatim>\<open>high_resolution_clock\<close> need not be steady): a frame read at 10 is accepted,
  the next frame is read at 5 and accepted too, and the stamp goes from 10 to 5.
\<close>

theorem stamp_grows_on_acceptance_counterexample:
  "update (euler_pcl (keep_guess (Fin 0))) 10
       (ObjectTracker_ctor [uniform_bounds 1] [[point 0 0 0]] [Object_ctor 0 0 (pose 5 5 5 0 0 0)])
       [point 0 0 0]
     = Inr (\<lparr> m_dynamicsConfigurations = [uniform_bounds 1],
              m_markerConfigurations = [[point 0 0 0]],
              m_objects = [\<lparr> m_markerConfigurationIdx = 0, m_dynamicsConfigurationIdx = 0,
                             m_lastTransformation = pose 0 0 0 0 0 0,
                             m_lastValidTransform = 10, m_lastTransformationValid = True \<rparr>],
              m_initialized = True \<rparr>, [])
   \<and> update (euler_pcl (keep_guess (Fin 0))) 5
       \<lparr> m_dynamicsConfigurations = [uniform_bounds 1],
         m_markerConfigurations = [[point 0 0 0]],
         m_objects = [\<lparr> m_markerConfigurationIdx = 0, m_dynamicsConfigurationIdx = 0,
                        m_lastTransformation = pose 0 0 0 0 0 0,
                        m_lastValidTransform = 10, m_lastTransformationValid = True \<rparr>],
         m_initialized = True \<rparr>
       [point 0 0 0]
     = Inr (\<lparr> m_dynamicsConfigurations = [uniform_bounds 1],
              m_markerConfigurations = [[point 0 0 0]],
              m_objects = [\<lparr> m_markerConfigurationIdx = 0, m_dynamicsConfigurationIdx = 0,
                             m_lastTransformation = pose 0 0 0 0 0 0,
                             m_lastValidTransform = 5, m_lastTransformationValid = True \<rparr>],
              m_initialized = True \<rparr>, [])
   \<and> \<not> (10 :: time_point) < 5"
  using first_frame_run clock_back_run by simp

text \<open>
  The first frame of a tracker, read 10 seconds after the epoch: accepted, and the stamp
  grows from the epoch to 10.
\<close>

theorem stamp_moves_only_on_acceptance_witness:
  "update (euler_pcl (keep_guess (Fin 0))) 10
       (ObjectTracker_ctor [uniform_bounds 1] [[point 0 0 0]] [Object_ctor 0 0 (pose 5 5 5 0 0 0)])
       [point 0 0 0]
     = Inr (\<lparr> m_dynamicsConfigurations = [uniform_bounds 1],
              m_markerConfigurations = [[point 0 0 0]],
              m_objects = [\<lparr> m_markerConfigurationIdx = 0, m_dynamicsConfigurationIdx = 0,
                             m_lastTransformation = pose 0 0 0 0 0 0,
                             m_lastValidTransform = 10, m_lastTransformationValid = True \<rparr>],
              m_initialized = True \<rparr>, [])
   \<and> m_lastValidTransform (Object_ctor 0 0 (pose 5 5 5 0 0 0)) < (10 :: time_point)"
proof -
  let ?tracker = "ObjectTracker_ctor [uniform_bounds 1] [[point 0 0 0]]
      [Object_ctor 0 0 (pose 5 5 5 0 0 0)]"
  have i: "0 < length (objects ?tracker)"
    by (simp add: objects_def ObjectTracker_ctor_def)
  have before: "m_lastValidTransform (objects ?tracker ! 0) \<le> 10"
    by (simp add: objects_def ObjectTracker_ctor_def Object_ctor_def epoch_def)
  from stamp_moves_only_on_acceptance [OF first_frame_run i] before
  have "m_lastValidTransform (objects ?tracker ! 0) < 10"
    by (simp add: objects_def lastTransformationValid_def)
  then show ?thesis using first_frame_run
    by (simp add: objects_def ObjectTracker_ctor_def)
qed

section \<open>The elapsed time and the correspondence distance\<close>

text \<open>
  Claim C7, as the code has it. \<open>dt\<close> is the clock reading of the frame minus the
  object's time stamp. The constructor sets the stamp to the clock's epoch and
  \<^verbatim>\<open>initialize\<close> leaves it alone, so for an object that never had an accepted pose
  \<open>dt\<close> is the time since the epoch of the clock.
\<close>

theorem elapsed_time_since_stamp_or_epoch:
  "elapsedSeconds stamp object = Fin (stamp - m_lastValidTransform object)
   \<and> elapsedSeconds stamp (Object_ctor markerConfigurationIdx dynamicsConfigurationIdx t)
       = Fin (stamp - epoch)
   \<and> (\<forall>tracker1 out1 i.
         ensure_initialized P (ObjectTracker_ctor dyns mconfs objs) markers = Inr (tracker1, out1)
         \<and> i < length objs
         \<and> m_lastValidTransform (objs ! i) = epoch
       \<longrightarrow> elapsedSeconds stamp (objects tracker1 ! i) = Fin (stamp - epoch))"
proof -
  have "elapsedSeconds stamp (objects tracker1 ! i) = Fin (stamp - epoch)"
    if init: "ensure_initialized P (ObjectTracker_ctor dyns mconfs objs) markers
        = Inr (tracker1, out1)"
      and i: "i < length objs" and fresh: "m_lastValidTransform (objs ! i) = epoch"
    for tracker1 out1 i
  proof -
    from ensure_initialized_kept [OF init] i
    have "m_lastValidTransform (objects tracker1 ! i) = m_lastValidTransform (objs ! i)"
      by (simp add: objects_def ObjectTracker_ctor_def)
    then show ?thesis by (simp add: elapsedSeconds_def fresh)
  qed
  then show ?thesis
    by (simp add: elapsedSeconds_def Object_ctor_def)
qed

text \<open>
  Claim C7 as stated takes \<open>dt\<close> of a never accepted object for the time since its
  construction. An object constructed when the clock reads 100 and tracked in a frame
  read at 105 is 5 seconds old; the constructor does not read the clock, and \<open>dt\<close> is 105.
\<close>

theorem elapsed_time_since_construction_counterexample:
  "elapsedSeconds 105 (Object_ctor 0 0 (pose 0 0 0 0 0 0)) = Fin 105
   \<and> Fin 105 \<noteq> Fin (105 - 100)"
  by (simp add: elapsedSeconds_def Object_ctor_def epoch_def)

text \<open>
  The first frame of a tracker built by the constructors, read 10 seconds after the
  epoch: after the initialization step the elapsed time of its object is 10.
\<close>

theorem elapsed_time_since_stamp_or_epoch_witness:
  "ensure_initialized (euler_pcl (keep_guess (Fin 0)))
       (ObjectTracker_ctor [uniform_bounds 1] [[point 0 0 0]] [Object_ctor 0 0 (pose 5 5 5 0 0 0)])
       [point 0 0 0]
     = Inr (\<lparr> m_dynamicsConfigurations = [uniform_bounds 1],
              m_markerConfigurations = [[point 0 0 0]],
              m_objects = [Object_ctor 0 0 (pose 0 0 0 0 0 0)],
              m_initialized = True \<rparr>, [])
   \<and> elapsedSeconds 10 (Object_ctor 0 0 (pose 0 0 0 0 0 0)) = Fin (10 - epoch)"
proof -
  let ?P = "euler_pcl (keep_guess (Fin 0))"
  let ?tracker1 = "\<lparr> m_dynamicsConfigurations = [uniform_bounds 1],
      m_markerConfigurations = [[point 0 0 0]],
      m_objects = [Object_ctor 0 0 (pose 0 0 0 0 0 0)], m_initialized = True \<rparr>"
  have init: "ensure_initialized ?P
      (ObjectTracker_ctor [uniform_bounds 1] [[point 0 0 0]] [Object_ctor 0 0 (pose 5 5 5 0 0 0)])
      [point 0 0 0] = Inr (?tracker1, [])"
    by (simp add: ensure_initialized_def one_object_run) (simp add: ObjectTracker_ctor_def)
  have fresh: "m_lastValidTransform ([Object_ctor 0 0 (pose 5 5 5 0 0 0)] ! 0) = epoch"
    by (simp add: Object_ctor_def)
  from elapsed_time_since_stamp_or_epoch [of 10 _ _ _ _ ?P "[uniform_bounds 1]" "[[point 0 0 0]]"
      "[Object_ctor 0 0 (pose 5 5 5 0 0 0)]" "[point 0 0 0]"] init fresh
  have "elapsedSeconds 10 (objects ?tracker1 ! 0) = Fin (10 - epoch)"
    by (metis length_Cons less_Suc_eq_0_disj)
  then show ?thesis using init by (simp add: objects_def)
qed

text \<open>
  Claim C6, as the code has it. In every pass of the tracking loop the maximum
  correspondence distance of the ICP object is set to the object's velocity bound for the
  \<open>x\<close> axis times \<open>dt\<close>, the clock reading of the frame minus the object's time stamp,
  and \<^verbatim>\<open>align\<close> runs with that setting. The bounds for \<open>y\<close> and \<open>z\<close> do not enter.
\<close>

theorem correspondence_distance_is_x_bound_times_dt:
  assumes "track_object P dyns mconfs stamp icp object = Inr (icp', object', out)"
    and "vec_at dyns (m_dynamicsConfigurationIdx object) = Inr dynConf"
    and "vec_at mconfs (m_markerConfigurationIdx object) = Inr source"
  shows "icp' = tracking_icp icp dynConf (elapsedSeconds stamp object) source
       \<and> maxCorrespondenceDistance icp'
           = Some (fl_mul (maxXVelocity dynConf) (Fin (stamp - m_lastValidTransform object)))
       \<and> (hasConverged (align P icp' (m_lastTransformation object))
            \<longleftrightarrow> out \<noteq> [NotConverged])"
proof -
  let ?icp2 = "tracking_icp icp dynConf (elapsedSeconds stamp object) source"
  have icp': "icp' = ?icp2"
    using assms by (auto simp: track_object_unfold Let_def split: if_splits)
  have "maxCorrespondenceDistance ?icp2
      = Some (fl_mul (maxXVelocity dynConf) (Fin (stamp - m_lastValidTransform object)))"
    by (simp add: tracking_icp_def elapsedSeconds_def)
  moreover have "hasConverged (align P ?icp2 (m_lastTransformation object))
      \<longleftrightarrow> out \<noteq> [NotConverged]"
    using assms by (auto simp: track_object_unfold gate_def Let_def split: if_splits)
  ultimately show ?thesis by (simp add: icp')
qed

text \<open>
  Claim C6 as stated speaks of the maximum linear velocity of the configuration. With
  bounds \<open>(1, 2, 1)\<close> on the three axes and \<open>dt = 1\<close> the code sets the distance 1, and
  the largest bound times \<open>dt\<close> is 2.
\<close>

theorem correspondence_distance_is_max_velocity_counterexample:
  "track_object (euler_pcl (keep_guess (Fin 0)))
       [(uniform_bounds 1)\<lparr> maxYVelocity := Fin 2 \<rparr>] [[point 0 0 0]] 1
       (icp_setup [point 0 0 0]) (Object_ctor 0 0 (pose 0 0 0 0 0 0))
     = Inr (\<lparr> maximumIterations = Some 5, inputTarget = Some [point 0 0 0],
              inputSource = Some [point 0 0 0], maxCorrespondenceDistance = Some (Fin 1) \<rparr>,
            \<lparr> m_markerConfigurationIdx = 0, m_dynamicsConfigurationIdx = 0,
              m_lastTransformation = pose 0 0 0 0 0 0, m_lastValidTransform = 1,
              m_lastTransformationValid = True \<rparr>, [])
   \<and> fl_mul (maxLinearVelocity_spec ((uniform_bounds 1)\<lparr> maxYVelocity := Fin 2 \<rparr>))
        (elapsedSeconds 1 (Object_ctor 0 0 (pose 0 0 0 0 0 0))) = Fin 2
   \<and> Fin 1 \<noteq> Fin 2"
  by (simp add: frame_defs keep_guess_def maxLinearVelocity_spec_def fl_max_def)

text \<open>
  The same bounds in a frame read 3 seconds after the epoch: the distance is \<open>1 * 3\<close>.
\<close>

theorem correspondence_distance_is_x_bound_times_dt_witness:
  "track_object (euler_pcl (keep_guess (Fin 0)))
       [(uniform_bounds 1)\<lparr> maxYVelocity := Fin 2 \<rparr>] [[point 0 0 0]] 3
       (icp_setup [point 0 0 0]) (Object_ctor 0 0 (pose 0 0 0 0 0 0))
     = Inr (\<lparr> maximumIterations = Some 5, inputTarget = Some [point 0 0 0],
              inputSource = Some [point 0 0 0], maxCorrespondenceDistance = Some (Fin 3) \<rparr>,
            \<lparr> m_markerConfigurationIdx = 0, m_dynamicsConfigurationIdx = 0,
              m_lastTransformation = pose 0 0 0 0 0 0, m_lastValidTransform = 3,
              m_lastTransformationValid = True \<rparr>, [])
   \<and> Some (Fin 3) = Some (fl_mul (maxXVelocity ((uniform_bounds 1)\<lparr> maxYVelocity := Fin 2 \<rparr>))
        (Fin (3 - m_lastValidTransform (Object_ctor 0 0 (pose 0 0 0 0 0 0 :: euler)))))"
proof -
  let ?dyn = "(uniform_bounds 1)\<lparr> maxYVelocity := Fin 2 \<rparr>"
  let ?object = "Object_ctor 0 0 (pose 0 0 0 0 0 0)"
  have run: "track_object (euler_pcl (keep_guess (Fin 0))) [?dyn] [[point 0 0 0]] 3
       (icp_setup [point 0 0 0]) ?object
     = Inr (\<lparr> maximumIterations = Some 5, inputTarget = Some [point 0 0 0],
              inputSource = Some [point 0 0 0], maxCorrespondenceDistance = Some (Fin 3) \<rparr>,
            \<lparr> m_markerConfigurationIdx = 0, m_dynamicsConfigurationIdx = 0,
              m_lastTransformation = pose 0 0 0 0 0 0, m_lastValidTransform = 3,
              m_lastTransformationValid = True \<rparr>, [])"
    by (simp add: frame_defs keep_guess_def)
  have dyn: "vec_at [?dyn] (m_dynamicsConfigurationIdx ?object) = Inr ?dyn"
    and src: "vec_at [[point 0 0 0]] (m_markerConfigurationIdx ?object) = Inr [point 0 0 0]"
    by (simp_all add: vec_at_def Object_ctor_def)
  from correspondence_distance_is_x_bound_times_dt [OF run dyn src]
  have "Some (Fin 3) = Some (fl_mul (maxXVelocity ?dyn) (Fin (3 - m_lastValidTransform ?object)))"
    by simp
  then show ?thesis using run by simp
qed

section \<open>Initialization\<close>

text \<open>
  Claim C3 says that each guess of the search has the neighbourhood centroid as
  translation, the hypothesised yaw, and zero roll and pitch. The code passes the
  hypothesised angle as the fourth argument of \<^verbatim>\<open>getTransformation\<close>, which is the
  roll: the guess of pass 5 at the centroid \<open>(1, 2, 3)\<close> has roll \<open>5 * (2 * M_PI / 20)\<close> and
  yaw 0, and is not the guess of the claim.
\<close>

theorem yaw_hypothesis_is_passed_as_roll:
  "tryMatrix (euler_pcl (keep_guess (Fin 0))) (point 1 2 3) 5
     = \<lparr> e_x = Fin 1, e_y = Fin 2, e_z = Fin 3,
         e_roll = Fin (5 * (2 * M_PI / 20)), e_pitch = Fin 0, e_yaw = Fin 0 \<rparr>
   \<and> tryMatrix (euler_pcl (keep_guess (Fin 0))) (point 1 2 3) 5
     \<noteq> \<lparr> e_x = Fin 1, e_y = Fin 2, e_z = Fin 3,
         e_roll = Fin 0, e_pitch = Fin 0, e_yaw = Fin (5 * (2 * M_PI / 20)) \<rparr>"
  by (simp add: tryMatrix_def euler_pcl_sel point_def N_YAW_def M_PI_def)

text \<open>
  Claim C4. \<^verbatim>\<open>initialize\<close> returns true exactly if every object passes the
  validation: each point of its marker configuration, moved by the transform the search
  left in the object, has a nearest observed marker whose squared distance is not above
  \<open>0.008 * 0.008\<close>, the square of 8 millimetres. So if one object fails and all the
  others pass, the call returns false.
\<close>

theorem initialize_succeeds_iff_every_object_fits:
  assumes "initialize P tracker markers = Inr (ok, tracker')"
  shows "(ok \<longleftrightarrow> (\<forall>i<length (objects tracker').
              object_fits P (m_markerConfigurations tracker') markers (objects tracker' ! i)))
       \<and> (\<forall>k<length (objects tracker').
             \<not> object_fits P (m_markerConfigurations tracker') markers (objects tracker' ! k)
           \<and> (\<forall>j<length (objects tracker'). j \<noteq> k \<longrightarrow>
                 object_fits P (m_markerConfigurations tracker') markers (objects tracker' ! j))
           \<longrightarrow> \<not> ok)
       \<and> INIT_MAX_HAUSDORFF_DIST2 = Fin ((8 / 1000) * (8 / 1000))"
proof -
  from assms obtain objs
    where loop: "initialize_objects P (m_markerConfigurations tracker) markers (icp_setup markers)
                   True (m_objects tracker) = Inr (ok, objs)"
      and tracker': "tracker' = tracker\<lparr> m_objects := objs \<rparr>"
    by (auto simp: initialize_def split: sum.splits)
  from initialize_objects_nth [OF loop]
  have "length objs = length (m_objects tracker)"
    and "ok \<longleftrightarrow> (\<forall>i<length (m_objects tracker).
            object_fits P (m_markerConfigurations tracker) markers (objs ! i))"
    by simp_all
  then have "ok \<longleftrightarrow> (\<forall>i<length (objects tracker').
              object_fits P (m_markerConfigurations tracker') markers (objects tracker' ! i))"
    by (simp add: tracker' objects_def)
  then show ?thesis by (auto simp: INIT_MAX_HAUSDORFF_DIST2_def)
qed

text \<open>
  One observed marker at the origin. Of two objects, the one whose single marker lies one
  metre off fails and the call returns false although the other one passes; a single
  passing object gives true.
\<close>

theorem initialize_succeeds_iff_every_object_fits_witness:
  "initialize (euler_pcl (keep_guess (Fin 0)))
       (ObjectTracker_ctor [uniform_bounds 1] [[point 0 0 0], [point 1 0 0]]
          [Object_ctor 0 0 (pose 0 0 0 0 0 0), Object_ctor 1 0 (pose 0 0 0 0 0 0)])
       [point 0 0 0]
     = Inr (False,
            ObjectTracker_ctor [uniform_bounds 1] [[point 0 0 0], [point 1 0 0]]
              [Object_ctor 0 0 (pose 0 0 0 0 0 0), Object_ctor 1 0 (pose 0 0 0 0 0 0)])
   \<and> object_fits (euler_pcl (keep_guess (Fin 0))) [[point 0 0 0], [point 1 0 0]] [point 0 0 0]
        (Object_ctor 0 0 (pose 0 0 0 0 0 0))
   \<and> \<not> object_fits (euler_pcl (keep_guess (Fin 0))) [[point 0 0 0], [point 1 0 0]] [point 0 0 0]
        (Object_ctor 1 0 (pose 0 0 0 0 0 0))
   \<and> initialize (euler_pcl (keep_guess (Fin 0)))
       (ObjectTracker_ctor [uniform_bounds 1] [[point 0 0 0]] [Object_ctor 0 0 (pose 5 5 5 0 0 0)])
       [point 0 0 0]
     = Inr (True,
            ObjectTracker_ctor [uniform_bounds 1] [[point 0 0 0]] [Object_ctor 0 0 (pose 0 0 0 0 0 0)])"
proof -
  let ?P = "euler_pcl (keep_guess (Fin 0))"
  let ?M = "[[point 0 0 0], [point 1 0 0]]"
  let ?o0 = "Object_ctor 0 0 (pose 0 0 0 0 0 0)" and ?o1 = "Object_ctor 1 0 (pose 0 0 0 0 0 0)"
  have fits0: "object_fits ?P ?M [point 0 0 0] ?o0"
    by (simp add: object_fits_def vec_at_def Object_ctor_def nearest_ok_one_marker
        euler_pcl_sel sqr_dist_def pose_def point_def INIT_MAX_HAUSDORFF_DIST2_def fl_gt_def fl_sub_def)
  have "\<not> (object_fits ?P ?M [point 0 0 0] ?o0 \<and> object_fits ?P ?M [point 0 0 0] ?o1)"
    using initialize_succeeds_iff_every_object_fits [OF two_objects_run]
    by (auto simp: objects_def ObjectTracker_ctor_def less_Suc_eq numeral_2_eq_2)
  then have "\<not> object_fits ?P ?M [point 0 0 0] ?o1"
    using fits0 by simp
  then show ?thesis using fits0 two_objects_run one_object_run by simp
qed

text \<open>
  Claim C5, as the code has it. Whatever \<^verbatim>\<open>initialize\<close> returns, true or false, it
  leaves in every object the outcome of that object's search and restores nothing: if some
  hypothesis scored below \<^verbatim>\<open>DBL_MAX\<close>, the object's transform is the refined
  transform of a hypothesis that scored below \<^verbatim>\<open>DBL_MAX\<close> and that no hypothesis
  beats; if none did, the transform is the one the object had before the call.
\<close>

theorem search_result_kept_whatever_the_verdict:
  assumes "initialize P tracker markers = Inr (ok, tracker')"
    and "i < length (objects tracker)"
    and "vec_at (m_markerConfigurations tracker) (m_markerConfigurationIdx (objects tracker ! i))
           = Inr objMarkers"
    and "knn_centroid P markers (length objMarkers) (transformation (objects tracker ! i))
           = Inr center"
    and "a = (\<lambda>k. align P (init_icp markers objMarkers) (tryMatrix P center k))"
  shows "if \<exists>k<N_YAW. fl_lt (getFitnessScore (a k)) (Fin DBL_MAX)
         then \<exists>k<N_YAW. transformation (objects tracker' ! i) = getFinalTransformation (a k)
                \<and> fl_lt (getFitnessScore (a k)) (Fin DBL_MAX)
                \<and> (\<forall>j<N_YAW. \<not> fl_lt (getFitnessScore (a j)) (getFitnessScore (a k)))
         else transformation (objects tracker' ! i) = transformation (objects tracker ! i)"
proof -
  let ?t = "transformation (objects tracker ! i)"
  let ?search = "yaw_search P (init_icp markers objMarkers) center [0..<N_YAW] (Fin DBL_MAX) ?t"
  have t': "transformation (objects tracker' ! i) = snd ?search"
    using initialize_nth [OF assms(1-4)] by (simp add: transformation_def)
  show ?thesis
  proof (cases "\<exists>k<N_YAW. fl_lt (getFitnessScore (a k)) (Fin DBL_MAX)")
    case True
    then have "\<exists>k\<in>set [0..<N_YAW]. fl_lt (getFitnessScore
        (align P (init_icp markers objMarkers) (tryMatrix P center k))) (Fin DBL_MAX)"
      by (auto simp: assms(5))
    from yaw_search_improvement [OF this, of ?t] obtain k where "k < N_YAW"
      and "?search = (getFitnessScore (a k), getFinalTransformation (a k))"
      and "fl_lt (getFitnessScore (a k)) (Fin DBL_MAX)"
      and "\<forall>j<N_YAW. \<not> fl_lt (getFitnessScore (a j)) (getFitnessScore (a k))"
      by (auto simp: assms(5))
    then show ?thesis using True by (auto simp: t')
  next
    case False
    then have "\<forall>k\<in>set [0..<N_YAW]. \<not> fl_lt (getFitnessScore
        (align P (init_icp markers objMarkers) (tryMatrix P center k))) (Fin DBL_MAX)"
      by (auto simp: assms(5))
    from yaw_search_no_improvement [OF this, of ?t] show ?thesis using False by (auto simp: t')
  qed
qed

text \<open>
  Claim C5 as stated fails when no hypothesis scores below \<^verbatim>\<open>DBL_MAX\<close>, the start
  value of \<^verbatim>\<open>bestErr\<close>: the object keeps the transform it had, here with
  translation \<open>(5, 5, 5)\<close>, while the refined transform of hypothesis 0 (and of every
  other hypothesis) has the centroid \<open>(0, 0, 0)\<close> as translation.
\<close>

theorem search_result_always_written_counterexample:
  "initialize (euler_pcl no_correspondence)
       (ObjectTracker_ctor [uniform_bounds 1] [[point 0 0 0]] [Object_ctor 0 0 (pose 5 5 5 0 0 0)])
       [point 0 0 0]
     = Inr (False,
            ObjectTracker_ctor [uniform_bounds 1] [[point 0 0 0]] [Object_ctor 0 0 (pose 5 5 5 0 0 0)])
   \<and> getFitnessScore (align (euler_pcl no_correspondence)
        (init_icp [point 0 0 0] [point 0 0 0]) (tryMatrix (euler_pcl no_correspondence) (point 0 0 0) 0))
      = Fin DBL_MAX
   \<and> getFinalTransformation (align (euler_pcl no_correspondence)
        (init_icp [point 0 0 0] [point 0 0 0]) (tryMatrix (euler_pcl no_correspondence) (point 0 0 0) 0))
      = pose 0 0 0 0 0 0
   \<and> pose 0 0 0 0 0 0 \<noteq> pose 5 5 5 0 0 0"
  by (simp add: initialize_def initialize_object_def knn_centroid_one_marker
        yaw_search_no_correspondence vec_at_def euler_pcl_sel first_k_search_def sqr_dist_def
        ObjectTracker_ctor_def Object_ctor_def pose_def point_def no_correspondence_def
        tryMatrix_def
        INIT_MAX_HAUSDORFF_DIST2_def fl_gt_def fl_sub_def Let_def)

text \<open>
  A batch that fails its validation: the object's marker lies one metre from the observed
  one. The call returns false, and the object's transform has moved from \<open>(5, 5, 5)\<close>
  to the refined transform of a hypothesis.
\<close>

theorem search_result_kept_whatever_the_verdict_witness:
  "initialize (euler_pcl (keep_guess (Fin 0)))
       (ObjectTracker_ctor [uniform_bounds 1] [[point 1 0 0]] [Object_ctor 0 0 (pose 5 5 5 0 0 0)])
       [point 0 0 0]
     = Inr (False,
            ObjectTracker_ctor [uniform_bounds 1] [[point 1 0 0]] [Object_ctor 0 0 (pose 0 0 0 0 0 0)])
   \<and> (\<exists>k<N_YAW. pose 0 0 0 0 0 0 =
          getFinalTransformation (align (euler_pcl (keep_guess (Fin 0)))
            (init_icp [point 0 0 0] [point 1 0 0])
            (tryMatrix (euler_pcl (keep_guess (Fin 0))) (point 0 0 0) k)))"
proof -
  let ?P = "euler_pcl (keep_guess (Fin 0))"
  let ?tracker = "ObjectTracker_ctor [uniform_bounds 1] [[point 1 0 0]]
      [Object_ctor 0 0 (pose 5 5 5 0 0 0)]"
  let ?a = "\<lambda>k. align ?P (init_icp [point 0 0 0] [point 1 0 0]) (tryMatrix ?P (point 0 0 0) k)"
  have i: "0 < length (objects ?tracker)"
    by (simp add: objects_def ObjectTracker_ctor_def)
  have src: "vec_at (m_markerConfigurations ?tracker)
      (m_markerConfigurationIdx (objects ?tracker ! 0)) = Inr [point 1 0 0]"
    by (simp add: objects_def ObjectTracker_ctor_def Object_ctor_def vec_at_def)
  have ctr: "knn_centroid ?P [point 0 0 0] (length [point 1 0 0])
      (transformation (objects ?tracker ! 0)) = Inr (point 0 0 0)"
    by (simp add: knn_centroid_one_marker point_def)
  have some: "\<exists>k<N_YAW. fl_lt (getFitnessScore (?a k)) (Fin DBL_MAX)"
    using DBL_MAX_gt_1 by (intro exI [of _ 0]) (simp add: N_YAW_def euler_pcl_sel keep_guess_def)
  have "\<exists>k<N_YAW. transformation (objects (ObjectTracker_ctor [uniform_bounds 1] [[point 1 0 0]]
      [Object_ctor 0 0 (pose 0 0 0 0 0 0)]) ! 0) = getFinalTransformation (?a k)"
    using search_result_kept_whatever_the_verdict [OF failed_batch_run i src ctr refl] some
    by auto
  then show ?thesis using failed_batch_run
    by (simp add: objects_def ObjectTracker_ctor_def Object_ctor_def transformation_def)
qed

section \<open>Divisions\<close>

lemma fl_div_zero_not_finite: "\<not> fl_finite (fl_div a (Fin 0))"
  using fl_div_zero_cases [of a] by auto

lemma finite_differences_zero_dt:
  "\<not> fl_finite (vx (finite_differences new prev (Fin 0)))
   \<and> \<not> fl_finite (vy (finite_differences new prev (Fin 0)))
   \<and> \<not> fl_finite (vz (finite_differences new prev (Fin 0)))
   \<and> \<not> fl_finite (wroll (finite_differences new prev (Fin 0)))
   \<and> \<not> fl_finite (wpitch (finite_differences new prev (Fin 0)))
   \<and> \<not> fl_finite (wyaw (finite_differences new prev (Fin 0)))"
  by (simp add: finite_differences_def fl_div_zero_not_finite)

lemma finite_differences_quotients:
  "d \<noteq> 0 \<Longrightarrow>
   finite_differences (pose x1 y1 z1 r1 p1 w1) (pose x0 y0 z0 r0 p0 w0) (Fin d)
     = \<lparr> vx = Fin ((x1 - x0) / d), vy = Fin ((y1 - y0) / d), vz = Fin ((z1 - z0) / d),
         wroll = Fin ((r1 - r0) / d), wpitch = Fin ((p1 - p0) / d),
         wyaw = Fin ((w1 - w0) / d) \<rparr>"
  by (simp add: finite_differences_def pose_def fl_sub_def)

lemma knn_centroid_quotients:
  assumes "sum_nearest markers (fst (nearestKSearch P markers (translation P t) n)) [0..<n]
             \<lparr> pt_x = Fin 0, pt_y = Fin 0, pt_z = Fin 0 \<rparr> = Inr s"
  shows "knn_centroid P markers n t
           = Inr \<lparr> pt_x = fl_div (pt_x s) (centroid_divisor n),
                   pt_y = fl_div (pt_y s) (centroid_divisor n),
                   pt_z = fl_div (pt_z s) (centroid_divisor n) \<rparr>"
  using assms by (simp add: knn_centroid_def Let_def)

lemma track_object_zero_dt_out:
  assumes dyn: "vec_at dyns (m_dynamicsConfigurationIdx object) = Inr dynConf"
    and src: "vec_at mconfs (m_markerConfigurationIdx object) = Inr source"
  shows "track_object P dyns mconfs (m_lastValidTransform object) icp object
     = Inr (tracking_icp icp dynConf (Fin 0) source,
            object\<lparr> m_lastTransformationValid := False \<rparr>,
            if hasConverged (align P (tracking_icp icp dynConf (Fin 0) source)
                 (m_lastTransformation object))
            then [DynamicCheckFailed (violations dynConf
                   (finite_differences
                      (getTranslationAndEulerAngles P (getFinalTransformation
                         (align P (tracking_icp icp dynConf (Fin 0) source)
                            (m_lastTransformation object))))
                      (getTranslationAndEulerAngles P (m_lastTransformation object)) (Fin 0))
                   (getTranslationAndEulerAngles P (getFinalTransformation
                      (align P (tracking_icp icp dynConf (Fin 0) source)
                         (m_lastTransformation object)))))]
            else [NotConverged])"
proof -
  have dt: "elapsedSeconds (m_lastValidTransform object) object = Fin 0"
    by (simp add: elapsedSeconds_def)
  show ?thesis
    using dyn src
    by (simp add: track_object_unfold dt gate_def dynamics_check_zero_dt Let_def)
qed

text \<open>
  Claim C10, as the code has it. The engine divides in three places. Each of the three
  coordinates of the centroid is divided by the number of points of the object's marker
  configuration, which is zero exactly for an empty configuration; then the centroid is
  \<open>0/0\<close>, a NaN in each coordinate. Each of the six differences is divided by \<open>dt\<close>,
  which is zero exactly when the clock reading of the frame equals the object's time
  stamp: for finite poses and a non-zero \<open>dt\<close> the six rates are the six quotients, and
  for \<open>dt = 0\<close> none of the six is finite. The step of the yaw hypotheses divides by the
  constant 20. Nothing checks the two divisors that can be zero: a pass read at the very
  stamp of the object runs through, and if the registration converged it computes the six
  rates with the divisor 0 and rejects the frame.
\<close>

theorem zero_divisors_are_not_checked:
  "(centroid_divisor (length objMarkers) = Fin 0 \<longleftrightarrow> objMarkers = [])
   \<and> (elapsedSeconds stamp object = Fin 0 \<longleftrightarrow> stamp = m_lastValidTransform object)
   \<and> real N_YAW \<noteq> 0
   \<and> (\<forall>s. sum_nearest markers (fst (nearestKSearch P markers (translation P t) n)) [0..<n]
             \<lparr> pt_x = Fin 0, pt_y = Fin 0, pt_z = Fin 0 \<rparr> = Inr s
         \<longrightarrow> knn_centroid P markers n t
               = Inr \<lparr> pt_x = fl_div (pt_x s) (centroid_divisor n),
                       pt_y = fl_div (pt_y s) (centroid_divisor n),
                       pt_z = fl_div (pt_z s) (centroid_divisor n) \<rparr>)
   \<and> knn_centroid P markers (length ([] :: cloud)) t
       = Inr \<lparr> pt_x = NaN, pt_y = NaN, pt_z = NaN \<rparr>
   \<and> (\<forall>d x1 y1 z1 r1 p1 w1 x0 y0 z0 r0 p0 w0. d \<noteq> 0 \<longrightarrow>
         finite_differences (pose x1 y1 z1 r1 p1 w1) (pose x0 y0 z0 r0 p0 w0) (Fin d)
           = \<lparr> vx = Fin ((x1 - x0) / d), vy = Fin ((y1 - y0) / d), vz = Fin ((z1 - z0) / d),
               wroll = Fin ((r1 - r0) / d), wpitch = Fin ((p1 - p0) / d),
               wyaw = Fin ((w1 - w0) / d) \<rparr>)
   \<and> (\<forall>new prev.
         \<not> fl_finite (vx (finite_differences new prev (Fin 0)))
       \<and> \<not> fl_finite (vy (finite_differences new prev (Fin 0)))
       \<and> \<not> fl_finite (vz (finite_differences new prev (Fin 0)))
       \<and> \<not> fl_finite (wroll (finite_differences new prev (Fin 0)))
       \<and> \<not> fl_finite (wpitch (finite_differences new prev (Fin 0)))
       \<and> \<not> fl_finite (wyaw (finite_differences new prev (Fin 0))))
   \<and> (\<forall>dynConf source.
         vec_at dyns (m_dynamicsConfigurationIdx object) = Inr dynConf
         \<and> vec_at mconfs (m_markerConfigurationIdx object) = Inr source
       \<longrightarrow> track_object P dyns mconfs (m_lastValidTransform object) icp object
             = Inr (tracking_icp icp dynConf (Fin 0) source,
                    object\<lparr> m_lastTransformationValid := False \<rparr>,
                    if hasConverged (align P (tracking_icp icp dynConf (Fin 0) source)
                         (m_lastTransformation object))
                    then [DynamicCheckFailed (violations dynConf
                           (finite_differences
                              (getTranslationAndEulerAngles P (getFinalTransformation
                                 (align P (tracking_icp icp dynConf (Fin 0) source)
                                    (m_lastTransformation object))))
                              (getTranslationAndEulerAngles P (m_lastTransformation object))
                              (Fin 0))
                           (getTranslationAndEulerAngles P (getFinalTransformation
                              (align P (tracking_icp icp dynConf (Fin 0) source)
                                 (m_lastTransformation object)))))]
                    else [NotConverged]))"
proof -
  have a: "centroid_divisor (length objMarkers) = Fin 0 \<longleftrightarrow> objMarkers = []"
    by (simp add: centroid_divisor_def)
  have b: "elapsedSeconds stamp object = Fin 0 \<longleftrightarrow> stamp = m_lastValidTransform object"
    by (simp add: elapsedSeconds_def)
  have c: "real N_YAW \<noteq> 0"
    by (simp add: N_YAW_def)
  have e: "knn_centroid P markers (length ([] :: cloud)) t
      = Inr \<lparr> pt_x = NaN, pt_y = NaN, pt_z = NaN \<rparr>"
    by (simp add: knn_centroid_no_marker)
  show ?thesis
    using a b c e knn_centroid_quotients [of markers P t n] finite_differences_quotients
      finite_differences_zero_dt track_object_zero_dt_out [of dyns object _ mconfs _ P icp]
    by (intro conjI allI impI) blast+
qed


lemma zero_dt_all_axes_run:
  "update (euler_pcl (converge_to (pose (1/2) (1/2) (1/2) (1/2) (1/2) (1/2)) (Fin 0))) 10
       \<lparr> m_dynamicsConfigurations = [uniform_bounds 1],
         m_markerConfigurations = [[point 0 0 0]],
         m_objects = [\<lparr> m_markerConfigurationIdx = 0, m_dynamicsConfigurationIdx = 0,
                        m_lastTransformation = pose 0 0 0 0 0 0,
                        m_lastValidTransform = 10, m_lastTransformationValid = True \<rparr>],
         m_initialized = True \<rparr>
       [point 0 0 0]
     = Inr (\<lparr> m_dynamicsConfigurations = [uniform_bounds 1],
              m_markerConfigurations = [[point 0 0 0]],
              m_objects = [\<lparr> m_markerConfigurationIdx = 0, m_dynamicsConfigurationIdx = 0,
                             m_lastTransformation = pose 0 0 0 0 0 0,
                             m_lastValidTransform = 10, m_lastTransformationValid = False \<rparr>],
              m_initialized = True \<rparr>,
            [DynamicCheckFailed
               [(''vx'', PInf, Fin 1), (''vy'', PInf, Fin 1), (''vz'', PInf, Fin 1),
                (''wroll'', PInf, Fin 1), (''wpitch'', PInf, Fin 1), (''wyaw'', PInf, Fin 1)]])"
  by (simp add: frame_defs converge_to_def fl_signed_inf_def)

text \<open>
  Claim C10 as stated makes a reading that strictly exceeds the stamp the condition for a
  non-zero \<open>dt\<close>. A frame read at 5 against a stamp of 10 (the clock stepped back) divides
  by \<open>-5\<close>, which is not zero, and is accepted; the reading does not exceed the stamp.
\<close>

theorem nonzero_divisor_needs_later_reading_counterexample:
  "elapsedSeconds 5 \<lparr> m_markerConfigurationIdx = 0, m_dynamicsConfigurationIdx = 0,
         m_lastTransformation = pose 0 0 0 0 0 0,
         m_lastValidTransform = 10, m_lastTransformationValid = True \<rparr> = Fin (- 5)
   \<and> Fin (- 5) \<noteq> Fin 0
   \<and> \<not> (10 :: time_point) < 5
   \<and> update (euler_pcl (keep_guess (Fin 0))) 5
       \<lparr> m_dynamicsConfigurations = [uniform_bounds 1],
         m_markerConfigurations = [[point 0 0 0]],
         m_objects = [\<lparr> m_markerConfigurationIdx = 0, m_dynamicsConfigurationIdx = 0,
                        m_lastTransformation = pose 0 0 0 0 0 0,
                        m_lastValidTransform = 10, m_lastTransformationValid = True \<rparr>],
         m_initialized = True \<rparr>
       [point 0 0 0]
     = Inr (\<lparr> m_dynamicsConfigurations = [uniform_bounds 1],
              m_markerConfigurations = [[point 0 0 0]],
              m_objects = [\<lparr> m_markerConfigurationIdx = 0, m_dynamicsConfigurationIdx = 0,
                             m_lastTransformation = pose 0 0 0 0 0 0,
                             m_lastValidTransform = 5, m_lastTransformationValid = True \<rparr>],
              m_initialized = True \<rparr>, [])"
  using clock_back_run by (simp add: elapsedSeconds_def)

text \<open>
  Two \<^verbatim>\<open>update\<close> calls that return normally: one on a tracker whose object has an
  empty marker configuration, one read at the very stamp of the object's last accepted
  pose, in which the six rates are infinite and the frame is rejected. With \<open>dt = 2\<close> the
  rates of a finite step are its halves.
\<close>

theorem zero_divisors_are_not_checked_witness:
  "update (euler_pcl no_correspondence) 10
       (ObjectTracker_ctor [uniform_bounds 1] [[]] [Object_ctor 0 0 (pose 5 5 5 0 0 0)])
       [point 0 0 0]
     = Inr (\<lparr> m_dynamicsConfigurations = [uniform_bounds 1],
              m_markerConfigurations = [[]],
              m_objects = [Object_ctor 0 0 (pose 5 5 5 0 0 0)],
              m_initialized = True \<rparr>,
            [NotConverged])
   \<and> centroid_divisor (length ([] :: cloud)) = Fin 0
   \<and> update (euler_pcl (converge_to (pose (1/2) (1/2) (1/2) (1/2) (1/2) (1/2)) (Fin 0))) 10
       \<lparr> m_dynamicsConfigurations = [uniform_bounds 1],
         m_markerConfigurations = [[point 0 0 0]],
         m_objects = [\<lparr> m_markerConfigurationIdx = 0, m_dynamicsConfigurationIdx = 0,
                        m_lastTransformation = pose 0 0 0 0 0 0,
                        m_lastValidTransform = 10, m_lastTransformationValid = True \<rparr>],
         m_initialized = True \<rparr>
       [point 0 0 0]
     = Inr (\<lparr> m_dynamicsConfigurations = [uniform_bounds 1],
              m_markerConfigurations = [[point 0 0 0]],
              m_objects = [\<lparr> m_markerConfigurationIdx = 0, m_dynamicsConfigurationIdx = 0,
                             m_lastTransformation = pose 0 0 0 0 0 0,
                             m_lastValidTransform = 10, m_lastTransformationValid = False \<rparr>],
              m_initialized = True \<rparr>,
            [DynamicCheckFailed
               [(''vx'', PInf, Fin 1), (''vy'', PInf, Fin 1), (''vz'', PInf, Fin 1),
                (''wroll'', PInf, Fin 1), (''wpitch'', PInf, Fin 1), (''wyaw'', PInf, Fin 1)]])
   \<and> elapsedSeconds 10 \<lparr> m_markerConfigurationIdx = 0, m_dynamicsConfigurationIdx = 0,
         m_lastTransformation = pose 0 0 0 0 0 0,
         m_lastValidTransform = 10, m_lastTransformationValid = True \<rparr> = Fin 0
   \<and> finite_differences (pose 1 2 3 4 5 6) (pose 0 0 0 0 0 0) (Fin 2)
       = \<lparr> vx = Fin (1/2), vy = Fin 1, vz = Fin (3/2),
           wroll = Fin 2, wpitch = Fin (5/2), wyaw = Fin 3 \<rparr>"
proof -
  let ?object = "\<lparr> m_markerConfigurationIdx = 0, m_dynamicsConfigurationIdx = 0,
      m_lastTransformation = pose 0 0 0 0 0 0,
      m_lastValidTransform = 10, m_lastTransformationValid = True \<rparr>"
  note inst = zero_divisors_are_not_checked [where objMarkers = "[]" and stamp = 10
      and object = ?object and P = "euler_pcl no_correspondence" and markers = "[]"
      and t = "pose 0 0 0 0 0 0" and n = 0 and dyns = "[]" and mconfs = "[]" and icp = ICP_new]
  have "centroid_divisor (length ([] :: cloud)) = Fin 0"
    using inst by simp
  moreover have "elapsedSeconds 10 ?object = Fin 0"
    using inst by simp
  moreover have "finite_differences (pose 1 2 3 4 5 6) (pose 0 0 0 0 0 0) (Fin 2)
       = \<lparr> vx = Fin (1/2), vy = Fin 1, vz = Fin (3/2),
           wroll = Fin 2, wpitch = Fin (5/2), wyaw = Fin 3 \<rparr>"
  proof -
    have "(2 :: real) \<noteq> 0" by simp
    with inst have "finite_differences (pose 1 2 3 4 5 6) (pose 0 0 0 0 0 0) (Fin 2)
        = \<lparr> vx = Fin ((1 - 0) / 2), vy = Fin ((2 - 0) / 2), vz = Fin ((3 - 0) / 2),
            wroll = Fin ((4 - 0) / 2), wpitch = Fin ((5 - 0) / 2), wyaw = Fin ((6 - 0) / 2) \<rparr>"
      by blast
    then show ?thesis by simp
  qed
  ultimately show ?thesis using empty_configuration_run zero_dt_all_axes_run by simp
qed

end
